theory Spec2Isabelle
  imports Main "HOL-Library.Sublist"
begin

section \<open>ymd-bot: the Yandex Music catalog client and the download service\<close>

text \<open>
  A shallow embedding of package \<open>yandex\<close> (the catalog client) and of package
  \<open>music\<close> (the orchestration service). Go strings are byte sequences, modelled as
  \<open>string\<close>; Go's \<open>int\<close> is modelled as \<open>int\<close>: the only arithmetic the code does
  on it is a division by a positive number and comparisons, which cannot overflow.
  Go's \<open>error\<close> values are built with \<open>fmt.Errorf\<close> only, so an error is its message.
  Contexts are left out: a cancelled call or a deadline that passed is a transport that
  answers an error.
\<close>

subsection \<open>Wire-format structures and the Track entity\<close>

record artistDTO =
  Name :: string

record albumDTO =
  Title_album :: string

type_synonym albumListDTO = "albumDTO list"

text \<open>\<open>ID\<close> is a \<open>json.Number\<close>, a string type holding the number's literal text.\<close>

record trackDTO =
  ID_dto :: string
  Title_dto :: string
  DurationMs :: int
  Artists_dto :: "artistDTO list"
  Albums :: albumListDTO
  CoverURI :: string
  StorageDir :: string
  RealID :: string
  TrackShare :: string
  Type_dto :: string

record downloadInfoDTO =
  URL :: string
  Codec :: string
  Bitrate :: int

record Track =
  ID :: string
  Title :: string
  Artists :: "string list"
  DurationSeconds :: int
  CoverURL :: string
  AlbumTitle :: string

subsection \<open>The pieces of Go's standard library that the mapping uses\<close>

text \<open>Go's integer division truncates towards zero; the divisor is never zero here.\<close>

definition go_div :: "int \<Rightarrow> int \<Rightarrow> int" where
  "go_div a b = (if (a < 0) = (b < 0) then \<bar>a\<bar> div \<bar>b\<bar> else - (\<bar>a\<bar> div \<bar>b\<bar>))"

text \<open>\<open>strings.ReplaceAll s old new\<close> for a non-empty \<open>old\<close>: the non-overlapping
  occurrences are replaced from left to right.\<close>

function ReplaceAll :: "string \<Rightarrow> string \<Rightarrow> string \<Rightarrow> string" where
  "ReplaceAll s old new =
     (if old = [] \<or> s = [] then s
      else if prefix old s then new @ ReplaceAll (drop (length old) s) old new
      else hd s # ReplaceAll (tl s) old new)"
  by pat_completeness auto
termination
  by (relation "measure (\<lambda>(s, old, new). length s)") auto

declare ReplaceAll.simps [simp del]

text \<open>\<open>strings.Join elems sep\<close>.\<close>

fun Join :: "string list \<Rightarrow> string \<Rightarrow> string" where
  "Join [] sep = []"
| "Join [x] sep = x"
| "Join (x # y # ys) sep = x @ sep @ Join (y # ys) sep"

subsection \<open>mapTrack and the Track helpers\<close>

text \<open>\<open>albumListDTO.Title\<close>: the first album's title, or the empty string.\<close>

definition Title_albums :: "albumListDTO \<Rightarrow> string" where
  "Title_albums a = (if length a = 0 then [] else Title_album (a ! 0))"

text \<open>The loop of \<open>mapTrack\<close> over \<open>t.Artists\<close>, appending to the slice \<open>artists\<close>.\<close>

fun mapTrack_artists :: "string list \<Rightarrow> artistDTO list \<Rightarrow> string list" where
  "mapTrack_artists artists [] = artists"
| "mapTrack_artists artists (a # as) =
     (if Name a \<noteq> [] then mapTrack_artists (artists @ [Name a]) as
      else mapTrack_artists artists as)"

definition mapTrack :: "trackDTO \<Rightarrow> Track" where
  "mapTrack t =
     (let artists = mapTrack_artists [] (Artists_dto t);
          cover = (if CoverURI t \<noteq> []
                   then ''https://'' @ ReplaceAll (CoverURI t) ''%%'' ''200x200''
                   else [])
      in \<lparr> ID = ID_dto t,
           Title = Title_dto t,
           Artists = artists,
           DurationSeconds = go_div (DurationMs t) 1000,
           CoverURL = cover,
           AlbumTitle = Title_albums (Albums t) \<rparr>)"

text \<open>\<open>Track.ArtistsString\<close> renders the joined artist names.\<close>

definition ArtistsString :: "Track \<Rightarrow> string" where
  "ArtistsString t = (if length (Artists t) = 0 then [] else Join (Artists t) '', '')"

subsection \<open>Candidate selection\<close>

text \<open>
  \<open>strings.EqualFold\<close> on its ASCII path: the bytes are compared pairwise, two bytes
  matching when they are equal or are the upper and the lower case of one letter, and
  the lengths must agree. Go leaves this path at the first byte above 127 and then
  compares runes under Unicode simple folding; the code calls the function against the
  text \<open>mp3\<close> only, whose letters have no case variant outside ASCII, so that a rune
  above 127 never matches there: the model answers \<open>False\<close>.
\<close>

definition foldEq :: "char \<Rightarrow> char \<Rightarrow> bool" where
  "foldEq a b =
     (let sr = min (of_char a :: nat) (of_char b); tr = max (of_char a :: nat) (of_char b)
      in tr = sr \<or> (65 \<le> sr \<and> sr \<le> 90 \<and> tr = sr + 32))"

fun EqualFold :: "string \<Rightarrow> string \<Rightarrow> bool" where
  "EqualFold [] [] = True"
| "EqualFold (a # s) (b # t) =
     (if 128 \<le> (of_char a :: nat) \<or> 128 \<le> (of_char b :: nat) then False
      else foldEq a b \<and> EqualFold s t)"
| "EqualFold _ _ = False"

text \<open>The loop of \<open>pickDownloadInfo\<close>: the first item whose codec is mp3, if any.\<close>

fun pickDownloadInfo_loop :: "downloadInfoDTO list \<Rightarrow> downloadInfoDTO option" where
  "pickDownloadInfo_loop [] = None"
| "pickDownloadInfo_loop (i # items) =
     (if EqualFold (Codec i) ''mp3'' then Some i else pickDownloadInfo_loop items)"

definition downloadInfoDTO_zero :: downloadInfoDTO where
  "downloadInfoDTO_zero = \<lparr> URL = [], Codec = [], Bitrate = 0 \<rparr>"

definition pickDownloadInfo :: "downloadInfoDTO list \<Rightarrow> downloadInfoDTO" where
  "pickDownloadInfo items =
     (if length items = 0 then downloadInfoDTO_zero
      else case pickDownloadInfo_loop items of
             Some i \<Rightarrow> i
           | None \<Rightarrow> items ! 0)"

subsection \<open>The XML shape of the download info\<close>

record xmlInfo =
  Host :: string
  Path :: string
  TS :: string
  S :: string
  Region :: string

text \<open>
  \<open>parseDownloadInfoXML\<close>. The decoder \<open>xml.Unmarshal\<close> belongs to Go's library and is
  a parameter: it answers an error message or the decoded fields.
\<close>

definition parseDownloadInfoXML ::
  "(string \<Rightarrow> string + xmlInfo) \<Rightarrow> string \<Rightarrow> string \<Rightarrow> string + string" where
  "parseDownloadInfoXML xml_Unmarshal data trackID =
     (if length data = 0 then Inl ''empty xml body''
      else case xml_Unmarshal data of
             Inl err \<Rightarrow> Inl err
           | Inr info \<Rightarrow>
               if Host info = [] \<or> Path info = [] \<or> TS info = [] \<or> S info = []
               then Inl ''incomplete xml fields''
               else let final = ''https://'' @ Host info @ ''/get-mp3/'' @ S info @ ''/''
                                  @ TS info @ Path info;
                        final = (if trackID \<noteq> [] then final @ ''?track-id='' @ trackID
                                 else final)
                    in Inr final)"

subsection \<open>Text helpers of Go's library used by the client\<close>

text \<open>\<open>fmt.Sprintf("%d", n)\<close>: the decimal digits, with a sign for a negative number.\<close>

definition digit :: "nat \<Rightarrow> char" where
  "digit d = ''0123456789'' ! d"

fun uitoa :: "nat \<Rightarrow> string" where
  "uitoa n = (if n < 10 then [digit n] else uitoa (n div 10) @ [digit (n mod 10)])"

declare uitoa.simps [simp del]

definition itoa :: "int \<Rightarrow> string" where
  "itoa i = (if i < 0 then CHR ''-'' # uitoa (nat (- i)) else uitoa (nat i))"

text \<open>
  \<open>strings.TrimSpace\<close> removes the leading and the trailing white space runes, as
  \<open>unicode.IsSpace\<close> defines them. On the UTF-8 bytes of a Go string these are the six
  ASCII characters tab, line feed, vertical tab, form feed, carriage return and space,
  and the encodings of U+0085, U+00A0, U+1680, U+2000 to U+200A, U+2028, U+2029,
  U+202F, U+205F and U+3000.
\<close>

definition spaceRunes :: "string list" where
  "spaceRunes =
     [[CHR 0x09], [CHR 0x0A], [CHR 0x0B], [CHR 0x0C], [CHR 0x0D], [CHR 0x20],
      [CHR 0xC2, CHR 0x85], [CHR 0xC2, CHR 0xA0],
      [CHR 0xE1, CHR 0x9A, CHR 0x80],
      [CHR 0xE2, CHR 0x80, CHR 0x80], [CHR 0xE2, CHR 0x80, CHR 0x81],
      [CHR 0xE2, CHR 0x80, CHR 0x82], [CHR 0xE2, CHR 0x80, CHR 0x83],
      [CHR 0xE2, CHR 0x80, CHR 0x84], [CHR 0xE2, CHR 0x80, CHR 0x85],
      [CHR 0xE2, CHR 0x80, CHR 0x86], [CHR 0xE2, CHR 0x80, CHR 0x87],
      [CHR 0xE2, CHR 0x80, CHR 0x88], [CHR 0xE2, CHR 0x80, CHR 0x89],
      [CHR 0xE2, CHR 0x80, CHR 0x8A],
      [CHR 0xE2, CHR 0x80, CHR 0xA8], [CHR 0xE2, CHR 0x80, CHR 0xA9],
      [CHR 0xE2, CHR 0x80, CHR 0xAF],
      [CHR 0xE2, CHR 0x81, CHR 0x9F],
      [CHR 0xE3, CHR 0x80, CHR 0x80]]"

text \<open>The width in bytes of the white space rune a string starts with or ends in,
  0 when there is none.\<close>

definition leadSpace :: "string \<Rightarrow> nat" where
  "leadSpace s = (case find (\<lambda>e. prefix e s) spaceRunes of None \<Rightarrow> 0 | Some e \<Rightarrow> length e)"

definition trailSpace :: "string \<Rightarrow> nat" where
  "trailSpace s =
     (case find (\<lambda>e. prefix (rev e) (rev s)) spaceRunes of None \<Rightarrow> 0 | Some e \<Rightarrow> length e)"

fun TrimLeft_fuel :: "nat \<Rightarrow> string \<Rightarrow> string" where
  "TrimLeft_fuel 0 s = s"
| "TrimLeft_fuel (Suc n) s =
     (if leadSpace s = 0 then s else TrimLeft_fuel n (drop (leadSpace s) s))"

fun TrimRight_fuel :: "nat \<Rightarrow> string \<Rightarrow> string" where
  "TrimRight_fuel 0 s = s"
| "TrimRight_fuel (Suc n) s =
     (if trailSpace s = 0 then s
      else TrimRight_fuel n (take (length s - trailSpace s) s))"

text \<open>Every step removes at least one byte, so the length of the string is enough
  fuel for either loop to come to its end.\<close>

definition TrimSpace :: "string \<Rightarrow> string" where
  "TrimSpace s =
     (let l = TrimLeft_fuel (length s) s in TrimRight_fuel (length l) l)"

text \<open>
  \<open>url.QueryEscape\<close>: letters, digits and the four marks \<open>- _ . ~\<close> stay, a space
  becomes \<open>+\<close>, every other byte becomes \<open>%XX\<close> in upper-case hexadecimal.
\<close>

definition shouldEscape :: "char \<Rightarrow> bool" where
  "shouldEscape c =
     (let n = (of_char c :: nat)
      in \<not> ((97 \<le> n \<and> n \<le> 122) \<or> (65 \<le> n \<and> n \<le> 90) \<or> (48 \<le> n \<and> n \<le> 57)
            \<or> c = CHR ''-'' \<or> c = CHR ''_'' \<or> c = CHR ''.'' \<or> c = CHR ''~''))"

definition upperhex :: "nat \<Rightarrow> char" where
  "upperhex d = ''0123456789ABCDEF'' ! d"

definition escapeByte :: "char \<Rightarrow> string" where
  "escapeByte c =
     (if c = CHR '' '' then ''+''
      else if shouldEscape c
        then [CHR ''%'', upperhex ((of_char c :: nat) div 16), upperhex ((of_char c :: nat) mod 16)]
      else [c])"

definition QueryEscape :: "string \<Rightarrow> string" where
  "QueryEscape s = concat (map escapeByte s)"

text \<open>
  \<open>url.Values\<close> holds one value for each key here, since the code fills it with \<open>Set\<close>
  only; \<open>Set\<close> replaces the value of a key. \<open>http.Header.Set\<close> does the same on the
  headers of a request.
\<close>

type_synonym Values = "(string \<times> string) list"

fun Values_Set :: "string \<Rightarrow> string \<Rightarrow> Values \<Rightarrow> Values" where
  "Values_Set k v [] = [(k, v)]"
| "Values_Set k v ((k', v') # q) =
     (if k' = k then (k, v) # q else (k', v') # Values_Set k v q)"

text \<open>\<open>Values.Encode\<close> writes \<open>key=value\<close> pairs, both escaped, joined by \<open>&\<close> and
  sorted by key in byte order.\<close>

fun bytes_le :: "string \<Rightarrow> string \<Rightarrow> bool" where
  "bytes_le [] t = True"
| "bytes_le (a # s) [] = False"
| "bytes_le (a # s) (b # t) =
     ((of_char a :: nat) < of_char b \<or> (a = b \<and> bytes_le s t))"

fun insert_by_key :: "string \<times> string \<Rightarrow> Values \<Rightarrow> Values" where
  "insert_by_key x [] = [x]"
| "insert_by_key x (y # ys) =
     (if bytes_le (fst x) (fst y) then x # y # ys else y # insert_by_key x ys)"

definition sort_by_key :: "Values \<Rightarrow> Values" where
  "sort_by_key q = foldr insert_by_key q []"

definition Values_Encode :: "Values \<Rightarrow> string" where
  "Values_Encode q =
     Join (map (\<lambda>(k, v). QueryEscape k @ ''='' @ QueryEscape v) (sort_by_key q)) ''&''"

subsection \<open>Requests, responses and the world\<close>

record request =
  Method :: string
  req_URL :: string
  Header :: "(string \<times> string) list"

text \<open>A response body is a stream: it delivers \<open>Data\<close> and then ends, or breaks with
  the error \<open>ReadErr\<close> after delivering \<open>Data\<close>.\<close>

record body =
  Data :: string
  ReadErr :: "string option"

text \<open>\<open>Request_URL\<close> is \<open>resp.Request.URL.String()\<close>, absent when \<open>resp.Request\<close> or
  its URL is nil.\<close>

record response =
  StatusCode :: int
  resp_Header :: "(string \<times> string) list"
  Body :: body
  Request_URL :: "string option"

definition Header_Get :: "(string \<times> string) list \<Rightarrow> string \<Rightarrow> string" where
  "Header_Get h k = (case map_of h k of None \<Rightarrow> [] | Some v \<Rightarrow> v)"

text \<open>\<open>io.ReadAll (io.LimitReader r n)\<close> with the error dropped, as the code does: the
  first \<open>n\<close> bytes that the stream delivers.\<close>

definition ReadAll_Limit :: "body \<Rightarrow> nat \<Rightarrow> string" where
  "ReadAll_Limit b n = take n (Data b)"

text \<open>A file system: rooted, cleaned paths as lists of names, each bound to a directory
  or to a file with its content. The root is the empty path.\<close>

type_synonym path = "string list"

datatype node = Dir | File string

type_synonym files = "path \<Rightarrow> node option"

text \<open>
  The world outside the program: the requests sent so far, the file system, the
  directory \<open>os.TempDir()\<close> and the random numbers that \<open>os.MkdirTemp\<close> draws.
\<close>

record world =
  Sent :: "request list"
  Files :: files
  TempDir :: path
  Random :: "nat \<Rightarrow> nat"
  RandPos :: nat

text \<open>
  What Go's library decides and the code takes as given: whether
  \<open>http.NewRequestWithContext\<close> rejects a URL (then with which error), and the decoders
  of \<open>encoding/json\<close> and \<open>encoding/xml\<close> for each payload. A decoder answers an error
  message or the decoded value: for the search and the track payloads the list
  \<open>Result.Tracks.Results\<close> or \<open>Result\<close>, for the download info the list \<open>Result\<close>,
  for the payload with \<open>src\<close> the field \<open>Src\<close>.
\<close>

record stdlib =
  NewRequest_err :: "string \<Rightarrow> string option"
  json_searchResponse :: "body \<Rightarrow> string + trackDTO list"
  json_trackResponse :: "body \<Rightarrow> string + trackDTO list"
  json_downloadInfoResponse :: "body \<Rightarrow> string + downloadInfoDTO list"
  json_Unmarshal_src :: "string \<Rightarrow> string + string"
  xml_Unmarshal :: "string \<Rightarrow> string + xmlInfo"

text \<open>
  \<open>APIClient\<close>. The interface \<open>HTTPClient\<close> is a function from the request to an error
  or a response; it is given the requests sent before, so that its answers may change
  from one call to the next. The logger takes no part in any result.
\<close>

record APIClient =
  httpClient :: "request list \<Rightarrow> request \<Rightarrow> string + response"
  token :: string

definition apiBase :: string where
  "apiBase = ''https://api.music.yandex.net''"

definition userAgent :: string where
  "userAgent = ''ym-bot/0.1 (+github.com/ndrewnee/go-yandex-music compatible)''"

definition attachHeaders :: "APIClient \<Rightarrow> request \<Rightarrow> request" where
  "attachHeaders c req =
     (let req = req\<lparr>Header := Values_Set ''User-Agent'' userAgent (Header req)\<rparr>
      in if token c \<noteq> []
         then req\<lparr>Header := Values_Set ''Authorization'' (''OAuth '' @ token c) (Header req)\<rparr>
         else req)"

text \<open>\<open>http.NewRequestWithContext ctx "GET" url nil\<close>.\<close>

definition NewRequest :: "stdlib \<Rightarrow> string \<Rightarrow> string + request" where
  "NewRequest lib url =
     (case NewRequest_err lib url of
        Some err \<Rightarrow> Inl err
      | None \<Rightarrow> Inr \<lparr> Method = ''GET'', req_URL = url, Header = [] \<rparr>)"

text \<open>\<open>c.httpClient.Do(req)\<close>: the request goes out and is recorded.\<close>

definition Do :: "APIClient \<Rightarrow> request \<Rightarrow> world \<Rightarrow> (string + response) \<times> world" where
  "Do c req w = (httpClient c (Sent w) req, w\<lparr>Sent := Sent w @ [req]\<rparr>)"

text \<open>The message for a status other than 200, with at most 4 KB of the body.\<close>

definition statusError :: "string \<Rightarrow> response \<Rightarrow> string" where
  "statusError what resp =
     what @ '' failed: status='' @ itoa (StatusCode resp) @ '' body=''
       @ ReadAll_Limit (Body resp) 4096"

subsection \<open>The catalog client\<close>

text \<open>The loop of \<open>SearchTracks\<close> over the results, with its index \<open>i\<close>.\<close>

fun SearchTracks_loop :: "int \<Rightarrow> int \<Rightarrow> trackDTO list \<Rightarrow> Track list \<Rightarrow> Track list" where
  "SearchTracks_loop limit i [] tracks = tracks"
| "SearchTracks_loop limit i (t # ts) tracks =
     (if i \<ge> limit then tracks
      else SearchTracks_loop limit (i + 1) ts (tracks @ [mapTrack t]))"

definition search_URL :: "string \<Rightarrow> int \<Rightarrow> string" where
  "search_URL query page =
     (let q = Values_Set ''text'' query [];
          q = Values_Set ''type'' ''track'' q;
          q = Values_Set ''page'' (itoa page) q;
          q = Values_Set ''nococrrect'' ''true'' q
      in apiBase @ ''/search'' @ ''?'' @ Values_Encode q)"

definition SearchTracks ::
  "stdlib \<Rightarrow> APIClient \<Rightarrow> string \<Rightarrow> int \<Rightarrow> int \<Rightarrow> world \<Rightarrow> (string + Track list) \<times> world" where
  "SearchTracks lib c query limit offset w =
     (if TrimSpace query = [] then (Inl ''query is empty'', w)
      else
        let limit = (if limit \<le> 0 then 10 else limit);
            offset = (if offset < 0 then 0 else offset);
            page = go_div offset limit
        in (case NewRequest lib (search_URL query page) of
             Inl err \<Rightarrow> (Inl err, w)
           | Inr req \<Rightarrow>
               (case Do c (attachHeaders c req) w of
                  (Inl err, w') \<Rightarrow> (Inl err, w')
                | (Inr resp, w') \<Rightarrow>
                    if StatusCode resp \<noteq> 200 then (Inl (statusError ''search'' resp), w')
                    else (case json_searchResponse lib (Body resp) of
                            Inl err \<Rightarrow> (Inl (''decode search response: '' @ err), w')
                          | Inr results \<Rightarrow>
                              (Inr (SearchTracks_loop limit 0 results []), w')))))"

definition GetTrack ::
  "stdlib \<Rightarrow> APIClient \<Rightarrow> string \<Rightarrow> world \<Rightarrow> (string + Track) \<times> world" where
  "GetTrack lib c id' w =
     (if id' = [] then (Inl ''track id is empty'', w)
      else (case NewRequest lib (apiBase @ ''/tracks/'' @ id') of
             Inl err \<Rightarrow> (Inl err, w)
           | Inr req \<Rightarrow>
               (case Do c (attachHeaders c req) w of
                  (Inl err, w') \<Rightarrow> (Inl err, w')
                | (Inr resp, w') \<Rightarrow>
                    if StatusCode resp \<noteq> 200 then (Inl (statusError ''get track'' resp), w')
                    else (case json_trackResponse lib (Body resp) of
                            Inl err \<Rightarrow> (Inl (''decode track response: '' @ err), w')
                          | Inr result \<Rightarrow>
                              if length result = 0 then (Inl ''track not found'', w')
                              else (Inr (mapTrack (result ! 0)), w')))))"

text \<open>\<open>resolveDownloadInfoURL\<close> fetches the indirection URL and takes the final URL from
  the JSON shape, the XML shape or the redirect, in this order.\<close>

definition resolveDownloadInfoURL ::
  "stdlib \<Rightarrow> APIClient \<Rightarrow> string \<Rightarrow> string \<Rightarrow> world \<Rightarrow> (string + string) \<times> world" where
  "resolveDownloadInfoURL lib c infoURL trackID w =
     (if infoURL = [] then (Inl ''download info url is empty'', w)
      else (case NewRequest lib infoURL of
             Inl err \<Rightarrow> (Inl err, w)
           | Inr req \<Rightarrow>
               (case Do c (attachHeaders c req) w of
                  (Inl err, w') \<Rightarrow> (Inl err, w')
                | (Inr resp, w') \<Rightarrow>
                    let body = ReadAll_Limit (Body resp) 8192;
                        fromJSON =
                          (if length body > 0
                           then (case json_Unmarshal_src lib body of
                                   Inr src \<Rightarrow> if src \<noteq> [] then Some src else None
                                 | Inl err \<Rightarrow> None)
                           else None);
                        fromXML =
                          (case parseDownloadInfoXML (xml_Unmarshal lib) body trackID of
                             Inr xmlURL \<Rightarrow> if xmlURL \<noteq> [] then Some xmlURL else None
                           | Inl xmlErr \<Rightarrow> None);
                        loc = Header_Get (resp_Header resp) ''Location''
                    in (case fromJSON of
                         Some src \<Rightarrow> (Inr src, w')
                       | None \<Rightarrow>
                           (case fromXML of
                              Some xmlURL \<Rightarrow> (Inr xmlURL, w')
                            | None \<Rightarrow>
                                if loc \<noteq> [] then (Inr loc, w')
                                else (case Request_URL resp of
                                        Some u \<Rightarrow> (Inr u, w')
                                      | None \<Rightarrow>
                                          (Inl (''cannot resolve download url: status=''
                                                @ itoa (StatusCode resp)), w')))))))"

definition GetDownloadURL ::
  "stdlib \<Rightarrow> APIClient \<Rightarrow> string \<Rightarrow> world \<Rightarrow> (string + string) \<times> world" where
  "GetDownloadURL lib c id' w =
     (if id' = [] then (Inl ''track id is empty'', w)
      else (case NewRequest lib (apiBase @ ''/tracks/'' @ id' @ ''/download-info'') of
             Inl err \<Rightarrow> (Inl err, w)
           | Inr req \<Rightarrow>
               (case Do c (attachHeaders c req) w of
                  (Inl err, w') \<Rightarrow> (Inl err, w')
                | (Inr resp, w') \<Rightarrow>
                    if StatusCode resp \<noteq> 200
                    then (Inl (statusError ''download-info'' resp), w')
                    else (case json_downloadInfoResponse lib (Body resp) of
                            Inl err \<Rightarrow> (Inl (''decode download-info: '' @ err), w')
                          | Inr result \<Rightarrow>
                              if length result = 0 then (Inl ''download url not found'', w')
                              else let info = pickDownloadInfo result
                                   in if URL info = [] then (Inl ''download url not found'', w')
                                      else resolveDownloadInfoURL lib c (URL info) id' w'))))"

subsection \<open>Paths and the file system\<close>

text \<open>
  A path of the program is rooted and cleaned, and is modelled by its list of names.
  \<open>filepath.Join dir name\<close> is \<open>Clean (dir + "/" + name)\<close>: the text \<open>name\<close> is cut at
  every slash, empty elements and \<open>.\<close> are dropped, and \<open>..\<close> removes the element
  before it (none when already at the root). \<open>filepath.Dir\<close> drops the last element.
\<close>

fun splitSlash_acc :: "string \<Rightarrow> string \<Rightarrow> string list" where
  "splitSlash_acc cur [] = [cur]"
| "splitSlash_acc cur (c # cs) =
     (if c = CHR ''/'' then cur # splitSlash_acc [] cs else splitSlash_acc (cur @ [c]) cs)"

definition splitSlash :: "string \<Rightarrow> string list" where
  "splitSlash s = splitSlash_acc [] s"

definition Clean_step :: "path \<Rightarrow> string \<Rightarrow> path" where
  "Clean_step p e =
     (if e = [] \<or> e = ''.'' then p else if e = ''..'' then butlast p else p @ [e])"

definition filepath_Join :: "path \<Rightarrow> string \<Rightarrow> path" where
  "filepath_Join dir name = foldl Clean_step dir (splitSlash name)"

definition filepath_Dir :: "path \<Rightarrow> path" where
  "filepath_Dir p = butlast p"

definition is_dir :: "files \<Rightarrow> path \<Rightarrow> bool" where
  "is_dir fs p = (p = [] \<or> fs p = Some Dir)"

text \<open>\<open>os.Mkdir\<close>: the path must be new and its parent a directory.\<close>

definition os_Mkdir :: "path \<Rightarrow> files \<Rightarrow> string option \<times> files" where
  "os_Mkdir p fs =
     (if p = [] \<or> fs p \<noteq> None then (Some ''file exists'', fs)
      else if \<not> is_dir fs (butlast p) then (Some ''no such file or directory'', fs)
      else (None, fs(p \<mapsto> Dir)))"

text \<open>\<open>os.MkdirAll\<close>: nothing to do for a directory, an error for a file, and
  otherwise the parent first.\<close>

function os_MkdirAll :: "path \<Rightarrow> files \<Rightarrow> string option \<times> files" where
  "os_MkdirAll p fs =
     (if p = [] then (None, fs)
      else (case fs p of
              Some Dir \<Rightarrow> (None, fs)
            | Some (File content) \<Rightarrow> (Some ''not a directory'', fs)
            | None \<Rightarrow>
                (case os_MkdirAll (butlast p) fs of
                   (Some err, fs') \<Rightarrow> (Some err, fs')
                 | (None, fs') \<Rightarrow> (None, fs'(p \<mapsto> Dir)))))"
  by pat_completeness auto
termination
  by (relation "measure (\<lambda>(p, fs). length p)") auto

declare os_MkdirAll.simps [simp del]

text \<open>\<open>os.Create\<close> creates the file or empties it; the parent must be a directory.\<close>

definition os_Create :: "path \<Rightarrow> files \<Rightarrow> string option \<times> files" where
  "os_Create p fs =
     (if p = [] \<or> fs p = Some Dir then (Some ''is a directory'', fs)
      else if \<not> is_dir fs (butlast p) then (Some ''no such file or directory'', fs)
      else (None, fs(p \<mapsto> File [])))"

text \<open>\<open>os.RemoveAll\<close> removes the path and everything below it. The model has no
  permissions, so the removal cannot fail; the code drops its error.\<close>

definition os_RemoveAll :: "path \<Rightarrow> files \<Rightarrow> files" where
  "os_RemoveAll p fs = (\<lambda>q. if prefix p q then None else fs q)"

text \<open>
  \<open>os.MkdirTemp "" "ym-bot-*"\<close>: a directory in \<open>os.TempDir()\<close> named by the prefix
  and a random number; a name that exists is tried again with the next number, up to
  10000 times.
\<close>

function MkdirTemp_loop :: "nat \<Rightarrow> world \<Rightarrow> (string + path) \<times> world" where
  "MkdirTemp_loop try w =
     (let name = TempDir w @ [''ym-bot-'' @ uitoa (Random w (RandPos w))];
          w = w\<lparr>RandPos := RandPos w + 1\<rparr>
      in case os_Mkdir name (Files w) of
           (None, fs) \<Rightarrow> (Inr name, w\<lparr>Files := fs\<rparr>)
         | (Some err, fs) \<Rightarrow>
             if err = ''file exists''
             then (if try + 1 < 10000 then MkdirTemp_loop (try + 1) w else (Inl err, w))
             else (Inl err, w))"
  by pat_completeness auto
termination
  by (relation "measure (\<lambda>(try, w). 10000 - try)") auto

declare MkdirTemp_loop.simps [simp del]

definition os_MkdirTemp :: "world \<Rightarrow> (string + path) \<times> world" where
  "os_MkdirTemp w = MkdirTemp_loop 0 w"

text \<open>\<open>ensureDir\<close>. Its test for the directory names \<open>""\<close> and \<open>"."\<close> is never true of
  a rooted path.\<close>

definition ensureDir :: "path \<Rightarrow> files \<Rightarrow> string option \<times> files" where
  "ensureDir dir fs = os_MkdirAll dir fs"

definition createFile :: "path \<Rightarrow> files \<Rightarrow> string option \<times> files" where
  "createFile p fs =
     (case ensureDir (filepath_Dir p) fs of
        (Some err, fs') \<Rightarrow> (Some (''ensure dir: '' @ err), fs')
      | (None, fs') \<Rightarrow> os_Create p fs')"

text \<open>\<open>DownloadToFile\<close>. \<open>io.Copy\<close> writes what the body delivers and answers the
  body's error, if it broke.\<close>

definition DownloadToFile ::
  "stdlib \<Rightarrow> APIClient \<Rightarrow> string \<Rightarrow> path \<Rightarrow> world \<Rightarrow> string option \<times> world" where
  "DownloadToFile lib c downloadURL destPath w =
     (if downloadURL = [] then (Some ''download url is empty'', w)
      else (case NewRequest lib downloadURL of
             Inl err \<Rightarrow> (Some err, w)
           | Inr req \<Rightarrow>
               (case Do c (attachHeaders c req) w of
                  (Inl err, w') \<Rightarrow> (Some err, w')
                | (Inr resp, w') \<Rightarrow>
                    if StatusCode resp \<noteq> 200 then (Some (statusError ''download'' resp), w')
                    else (case ensureDir (filepath_Dir destPath) (Files w') of
                            (Some err, fs) \<Rightarrow> (Some err, w'\<lparr>Files := fs\<rparr>)
                          | (None, fs) \<Rightarrow>
                              (case createFile destPath fs of
                                 (Some err, fs') \<Rightarrow> (Some err, w'\<lparr>Files := fs'\<rparr>)
                               | (None, fs') \<Rightarrow>
                                   (ReadErr (Body resp),
                                    w'\<lparr>Files := fs'(destPath \<mapsto> File (Data (Body resp)))\<rparr>))))))"

subsection \<open>The orchestration service\<close>

text \<open>The interface \<open>yandex.Client\<close> that the service relies on, and \<open>APIClient\<close> as
  its implementation.\<close>

record Client =
  Client_SearchTracks :: "string \<Rightarrow> int \<Rightarrow> int \<Rightarrow> world \<Rightarrow> (string + Track list) \<times> world"
  Client_GetTrack :: "string \<Rightarrow> world \<Rightarrow> (string + Track) \<times> world"
  Client_GetDownloadURL :: "string \<Rightarrow> world \<Rightarrow> (string + string) \<times> world"
  Client_DownloadToFile :: "string \<Rightarrow> path \<Rightarrow> world \<Rightarrow> string option \<times> world"

definition APIClient_Client :: "stdlib \<Rightarrow> APIClient \<Rightarrow> Client" where
  "APIClient_Client lib c =
     \<lparr> Client_SearchTracks = SearchTracks lib c,
       Client_GetTrack = GetTrack lib c,
       Client_GetDownloadURL = GetDownloadURL lib c,
       Client_DownloadToFile = DownloadToFile lib c \<rparr>"

record Service =
  client :: Client

definition Search ::
  "Service \<Rightarrow> string \<Rightarrow> int \<Rightarrow> int \<Rightarrow> world \<Rightarrow> (string + Track list) \<times> world" where
  "Search s query limit offset w = Client_SearchTracks (client s) query limit offset w"

definition StreamURL ::
  "Service \<Rightarrow> string \<Rightarrow> world \<Rightarrow> (string + Track \<times> string) \<times> world" where
  "StreamURL s id' w =
     (case Client_GetTrack (client s) id' w of
        (Inl err, w1) \<Rightarrow> (Inl (''get track meta: '' @ err), w1)
      | (Inr meta, w1) \<Rightarrow>
          (case Client_GetDownloadURL (client s) id' w1 of
             (Inl err, w2) \<Rightarrow> (Inl (''get download url: '' @ err), w2)
           | (Inr downloadURL, w2) \<Rightarrow> (Inr (meta, downloadURL), w2)))"

definition DownloadTrack ::
  "Service \<Rightarrow> string \<Rightarrow> world \<Rightarrow> (string + Track \<times> path) \<times> world" where
  "DownloadTrack s id' w =
     (case Client_GetTrack (client s) id' w of
        (Inl err, w1) \<Rightarrow> (Inl (''get track meta: '' @ err), w1)
      | (Inr meta, w1) \<Rightarrow>
          (case Client_GetDownloadURL (client s) id' w1 of
             (Inl err, w2) \<Rightarrow> (Inl (''get download url: '' @ err), w2)
           | (Inr downloadURL, w2) \<Rightarrow>
               (case os_MkdirTemp w2 of
                  (Inl err, w3) \<Rightarrow> (Inl (''temp dir: '' @ err), w3)
                | (Inr tmpDir, w3) \<Rightarrow>
                    let filename = ArtistsString meta @ '' - '' @ Title meta @ ''.mp3'';
                        dest = filepath_Join tmpDir filename
                    in (case Client_DownloadToFile (client s) downloadURL dest w3 of
                          (Some err, w4) \<Rightarrow>
                            (Inl (''download: '' @ err),
                             w4\<lparr>Files := os_RemoveAll tmpDir (Files w4)\<rparr>)
                        | (None, w4) \<Rightarrow> (Inr (meta, dest), w4)))))"

text \<open>
  What a file system guarantees and the model of \<open>files\<close> alone does not: every entry
  but the root lies in a directory. It is an assumption on the world the program
  starts in.
\<close>

definition wf_files :: "files \<Rightarrow> bool" where
  "wf_files fs = (\<forall>p. fs p \<noteq> None \<longrightarrow> p \<noteq> [] \<and> is_dir fs (butlast p))"

section \<open>A small world to run the definitions in\<close>

text \<open>
  A catalog with one track, a transport that serves it and the decoders for its
  payloads; the theorems below are instantiated with these.
\<close>

definition ex_info :: xmlInfo where
  "ex_info = \<lparr> Host = ''h'', Path = ''/p'', TS = ''123'', S = ''sig'', Region = [] \<rparr>"

definition ex_dto :: "string \<Rightarrow> string \<Rightarrow> trackDTO" where
  "ex_dto artist title =
     \<lparr> ID_dto = ''42'', Title_dto = title, DurationMs = 185000,
       Artists_dto = [\<lparr> Name = artist \<rparr>], Albums = [\<lparr> Title_album = ''Album'' \<rparr>],
       CoverURI = ''avatars.yandex.net/get-music-content/1/%%'', StorageDir = [],
       RealID = ''42'', TrackShare = [], Type_dto = ''music'' \<rparr>"

definition ex_respond :: "int \<Rightarrow> string \<Rightarrow> response" where
  "ex_respond status data =
     \<lparr> StatusCode = status, resp_Header = [],
       Body = \<lparr> Data = data, ReadErr = None \<rparr>, Request_URL = None \<rparr>"

definition ex_stdlib :: "trackDTO \<Rightarrow> stdlib" where
  \<open>ex_stdlib dto =
     \<lparr> NewRequest_err = (\<lambda>url. None),
       json_searchResponse =
         (\<lambda>b. if Data b = ''SEARCH''
              then Inr [dto, dto\<lparr>ID_dto := ''43''\<rparr>, dto\<lparr>ID_dto := ''44''\<rparr>]
              else Inl ''invalid character''),
       json_trackResponse =
         (\<lambda>b. if Data b = ''TRACK'' then Inr [dto] else Inl ''invalid character''),
       json_downloadInfoResponse =
         (\<lambda>b. if Data b = ''INFO''
              then Inr [\<lparr> URL = ''https://storage/info-aac'', Codec = ''aac'', Bitrate = 192 \<rparr>,
                        \<lparr> URL = ''https://storage/info-mp3'', Codec = ''mp3'', Bitrate = 320 \<rparr>]
              else Inl ''invalid character''),
       json_Unmarshal_src =
         (\<lambda>b. if b = ''{"src":"https://cdn/audio.mp3"}'' then Inr ''https://cdn/audio.mp3''
              else Inl ''invalid character''),
       xml_Unmarshal =
         (\<lambda>d. if d = ''<download-info><host>h</host><path>/p</path><ts>123</ts><s>sig</s></download-info>''
              then Inr ex_info else Inl ''EOF'') \<rparr>\<close>

text \<open>The transport: the catalog answers for track 42, the storage answers with the
  JSON shape, and the last parameter is what the audio host answers.\<close>

definition ex_client :: "string + response \<Rightarrow> APIClient" where
  \<open>ex_client audio =
     \<lparr> httpClient =
         (\<lambda>sent req.
            if prefix (apiBase @ ''/search?'') (req_URL req) then Inr (ex_respond 200 ''SEARCH'')
            else if req_URL req = apiBase @ ''/tracks/42'' then Inr (ex_respond 200 ''TRACK'')
            else if req_URL req = apiBase @ ''/tracks/42/download-info''
              then Inr (ex_respond 200 ''INFO'')
            else if req_URL req = ''https://storage/info-mp3''
              then Inr (ex_respond 200 ''{"src":"https://cdn/audio.mp3"}'')
            else if req_URL req = ''https://cdn/audio.mp3'' then audio
            else Inl ''no such host''),
       token = ''y0_token'' \<rparr>\<close>

text \<open>A body of JSON text with more than 8192 bytes, and decoders that accept the whole
  text only, as the decoders of Go do with a text cut before its end.\<close>

definition ex_long_json :: string where
  \<open>ex_long_json = ''{"src":"A","pad":"'' @ replicate 8192 (CHR ''x'') @ ''"}''\<close>

definition ex_long_stdlib :: stdlib where
  "ex_long_stdlib =
     (ex_stdlib (ex_dto ''a'' ''t''))
       \<lparr> json_Unmarshal_src :=
           (\<lambda>b. if b = ex_long_json then Inr ''A'' else Inl ''unexpected end of JSON input''),
         xml_Unmarshal := (\<lambda>d. Inl ''EOF'') \<rparr>"

text \<open>A transport that answers every request with the same response.\<close>

definition ex_const_client :: "response \<Rightarrow> APIClient" where
  "ex_const_client resp = \<lparr> httpClient = (\<lambda>sent req. Inr resp), token = [] \<rparr>"

definition ex_world :: world where
  "ex_world =
     \<lparr> Sent = [], Files = [[''tmp''] \<mapsto> Dir], TempDir = [''tmp''],
       Random = (\<lambda>n. 7), RandPos = 0 \<rparr>"

section \<open>Properties of the mapping and of the candidate selection\<close>

lemma mapTrack_artists_filter:
  "mapTrack_artists acc as = acc @ filter (\<lambda>n. n \<noteq> []) (map Name as)"
  by (induction as arbitrary: acc) simp_all

lemma Artists_mapTrack:
  "Artists (mapTrack t) = filter (\<lambda>n. n \<noteq> []) (map Name (Artists_dto t))"
  by (simp add: mapTrack_def mapTrack_artists_filter)

lemma ID_mapTrack: "ID (mapTrack t) = ID_dto t"
  by (simp add: mapTrack_def)

text \<open>
  Claim C8. For every trackDTO the mapped Track's \<open>DurationSeconds\<close> is \<open>DurationMs\<close>
  divided by 1000 with truncation: the magnitude is rounded down and the sign is kept.
  185000 gives 185, 1999 gives 1 (not 2), and -1999 gives -1.
\<close>

theorem mapTrack_duration_truncates:
  "DurationSeconds (mapTrack t) = sgn (DurationMs t) * (\<bar>DurationMs t\<bar> div 1000)
   \<and> DurationSeconds (mapTrack (t\<lparr>DurationMs := 185000\<rparr>)) = 185
   \<and> DurationSeconds (mapTrack (t\<lparr>DurationMs := 1999\<rparr>)) = 1
   \<and> DurationSeconds (mapTrack (t\<lparr>DurationMs := - 1999\<rparr>)) = - 1"
  by (simp add: mapTrack_def go_div_def sgn_if)

lemma Join_spelled:
  "Join xs sep = (case xs of [] \<Rightarrow> [] | n # ns \<Rightarrow> n @ concat (map (\<lambda>x. sep @ x) ns))"
  by (induction xs sep rule: Join.induct) simp_all

text \<open>
  Claim C10. The mapped Track's \<open>Artists\<close> are the artist names of the DTO with the
  empty names removed, in their original order, hence a subsequence of the DTO's names.
  \<open>ArtistsString\<close> is the text of these names with a comma and a space between each
  name and the next: empty for no artist, the name itself for one, and for more the
  first name, the separator and the text of the rest. The names Daft Punk, an empty
  name, Pharrell Williams and Nile Rodgers give
  \<open>Daft Punk, Pharrell Williams, Nile Rodgers\<close>.
\<close>

theorem mapTrack_artists_nonempty_names_in_order:
  "Artists (mapTrack t) = filter (\<lambda>n. n \<noteq> []) (map Name (Artists_dto t))
   \<and> subseq (Artists (mapTrack t)) (map Name (Artists_dto t))
   \<and> ArtistsString (mapTrack t) = Join (filter (\<lambda>n. n \<noteq> []) (map Name (Artists_dto t))) '', ''
   \<and> ArtistsString (tr\<lparr>Artists := []\<rparr>) = []
   \<and> ArtistsString (mapTrack t) =
        (case filter (\<lambda>n. n \<noteq> []) (map Name (Artists_dto t)) of
           [] \<Rightarrow> []
         | n # ns \<Rightarrow> n @ concat (map (\<lambda>x. '', '' @ x) ns))
   \<and> ArtistsString (tr\<lparr>Artists := [a]\<rparr>) = a
   \<and> ArtistsString (tr\<lparr>Artists := a # b # rest\<rparr>)
        = a @ '', '' @ ArtistsString (tr\<lparr>Artists := b # rest\<rparr>)
   \<and> ArtistsString (mapTrack (t\<lparr>Artists_dto :=
          [\<lparr>Name = ''Daft Punk''\<rparr>, \<lparr>Name = []\<rparr>, \<lparr>Name = ''Pharrell Williams''\<rparr>,
           \<lparr>Name = ''Nile Rodgers''\<rparr>]\<rparr>))
        = ''Daft Punk, Pharrell Williams, Nile Rodgers''"
proof -
  let ?names = "filter (\<lambda>n. n \<noteq> []) (map Name (Artists_dto t))"
  have a: "Artists (mapTrack t) = ?names" by (rule Artists_mapTrack)
  have s: "subseq (Artists (mapTrack t)) (map Name (Artists_dto t))"
    unfolding a by (rule subseq_filter_left)
  have j: "ArtistsString (mapTrack t) = Join ?names '', ''"
    unfolding ArtistsString_def a by (cases ?names) simp_all
  have e: "ArtistsString (tr\<lparr>Artists := []\<rparr>) = []"
    by (simp add: ArtistsString_def)
  have c: "ArtistsString (mapTrack t) =
        (case ?names of [] \<Rightarrow> [] | n # ns \<Rightarrow> n @ concat (map (\<lambda>x. '', '' @ x) ns))"
    unfolding j by (rule Join_spelled)
  have o: "ArtistsString (tr\<lparr>Artists := [a]\<rparr>) = a"
    by (simp add: ArtistsString_def)
  have m: "ArtistsString (tr\<lparr>Artists := a # b # rest\<rparr>)
        = a @ '', '' @ ArtistsString (tr\<lparr>Artists := b # rest\<rparr>)"
    by (simp add: ArtistsString_def)
  have x: "ArtistsString (mapTrack (t\<lparr>Artists_dto :=
          [\<lparr>Name = ''Daft Punk''\<rparr>, \<lparr>Name = []\<rparr>, \<lparr>Name = ''Pharrell Williams''\<rparr>,
           \<lparr>Name = ''Nile Rodgers''\<rparr>]\<rparr>))
        = ''Daft Punk, Pharrell Williams, Nile Rodgers''"
    by (simp add: ArtistsString_def Artists_mapTrack)
  from a s j e c o m x show ?thesis by blast
qed

subsection \<open>Case-insensitive comparison with mp3\<close>

lemma of_char_eq_iff_nat: "(of_char a :: nat) = of_char b \<longleftrightarrow> a = b"
  by (metis char_of_char)

lemma foldEq_ascii:
  "foldEq a b \<longleftrightarrow> a = b
      \<or> (65 \<le> (of_char a::nat) \<and> (of_char a::nat) \<le> 90 \<and> (of_char b::nat) = of_char a + 32)
      \<or> (65 \<le> (of_char b::nat) \<and> (of_char b::nat) \<le> 90 \<and> (of_char a::nat) = of_char b + 32)"
  unfolding foldEq_def Let_def
  apply (subst of_char_eq_iff_nat[symmetric, of a b])
  apply (auto simp: min_def max_def)
  done

lemma EqualFold_mp3:
  "EqualFold c ''mp3'' \<longleftrightarrow> c \<in> {''mp3'', ''mP3'', ''Mp3'', ''MP3''}"
proof (cases c)
  case Nil then show ?thesis by simp
next
  case (Cons a c1)
  show ?thesis
  proof (cases c1)
    case Nil with Cons show ?thesis by simp
  next
    case (Cons b c2)
    note c1 = this
    show ?thesis
    proof (cases c2)
      case Nil with c1 \<open>c = a # c1\<close> show ?thesis by simp
    next
      case (Cons d c3)
      have m: "foldEq a CHR ''m'' \<longleftrightarrow> a = CHR ''m'' \<or> a = CHR ''M''"
        using of_char_eq_iff_nat[of a "CHR ''M''"] by (auto simp: foldEq_ascii)
      have p: "foldEq b CHR ''p'' \<longleftrightarrow> b = CHR ''p'' \<or> b = CHR ''P''"
        using of_char_eq_iff_nat[of b "CHR ''P''"] by (auto simp: foldEq_ascii)
      have t: "foldEq d CHR ''3'' \<longleftrightarrow> d = CHR ''3''"
        by (auto simp: foldEq_ascii)
      show ?thesis
        unfolding \<open>c = a # c1\<close> c1 Cons
        by (cases c3) (auto simp: m p t)
    qed
  qed
qed

lemma pickDownloadInfo_loop_None:
  "pickDownloadInfo_loop items = None \<longleftrightarrow> (\<forall>i\<in>set items. \<not> EqualFold (Codec i) ''mp3'')"
  by (induction items) simp_all

lemma pickDownloadInfo_loop_Some:
  "pickDownloadInfo_loop items = Some x \<Longrightarrow>
     \<exists>k<length items. items ! k = x \<and> EqualFold (Codec x) ''mp3''
        \<and> (\<forall>j<k. \<not> EqualFold (Codec (items ! j)) ''mp3'')"
proof (induction items)
  case Nil
  then show ?case by simp
next
  case (Cons i items)
  show ?case
  proof (cases "EqualFold (Codec i) ''mp3''")
    case True
    with Cons.prems have "x = i" by simp
    with True show ?thesis by (intro exI[of _ 0]) simp
  next
    case False
    with Cons.prems have "pickDownloadInfo_loop items = Some x" by simp
    from Cons.IH[OF this] obtain k where k: "k < length items" "items ! k = x"
      "EqualFold (Codec x) ''mp3''" "\<forall>j<k. \<not> EqualFold (Codec (items ! j)) ''mp3''"
      by blast
    have "\<forall>j<Suc k. \<not> EqualFold (Codec ((i # items) ! j)) ''mp3''"
      using False k(4) by (auto simp: less_Suc_eq_0_disj)
    with k show ?thesis by (intro exI[of _ "Suc k"]) simp
  qed
qed

text \<open>
  Claim C3. Candidate selection is a total function of the candidate list. A codec
  matches when it is one of the four spellings of mp3 in upper and lower case. On a
  non-empty list \<open>pickDownloadInfo\<close> returns the first candidate whose codec matches,
  and the first candidate of the list when none matches; it has no error result. From
  aac, MP3, flac the second is chosen, from aac, flac the first.
\<close>

theorem pickDownloadInfo_first_mp3_else_first:
  "(\<forall>c. EqualFold c ''mp3'' \<longleftrightarrow> c \<in> {''mp3'', ''mP3'', ''Mp3'', ''MP3''})
   \<and> (items \<noteq> [] \<longrightarrow>
        (\<exists>k<length items. EqualFold (Codec (items ! k)) ''mp3''
             \<and> (\<forall>j<k. \<not> EqualFold (Codec (items ! j)) ''mp3'')
             \<and> pickDownloadInfo items = items ! k)
        \<or> ((\<forall>i\<in>set items. \<not> EqualFold (Codec i) ''mp3'')
             \<and> pickDownloadInfo items = items ! 0))
   \<and> pickDownloadInfo [a\<lparr>Codec := ''aac''\<rparr>, b\<lparr>Codec := ''MP3''\<rparr>, c\<lparr>Codec := ''flac''\<rparr>]
        = b\<lparr>Codec := ''MP3''\<rparr>
   \<and> pickDownloadInfo [a\<lparr>Codec := ''aac''\<rparr>, c\<lparr>Codec := ''flac''\<rparr>] = a\<lparr>Codec := ''aac''\<rparr>"
proof -
  have spell: "\<forall>c. EqualFold c ''mp3'' \<longleftrightarrow> c \<in> {''mp3'', ''mP3'', ''Mp3'', ''MP3''}"
    using EqualFold_mp3 by blast
  have pick: "(\<exists>k<length items. EqualFold (Codec (items ! k)) ''mp3''
             \<and> (\<forall>j<k. \<not> EqualFold (Codec (items ! j)) ''mp3'')
             \<and> pickDownloadInfo items = items ! k)
        \<or> ((\<forall>i\<in>set items. \<not> EqualFold (Codec i) ''mp3'')
             \<and> pickDownloadInfo items = items ! 0)" if ne: "items \<noteq> []"
  proof (cases "pickDownloadInfo_loop items")
    case None
    then have "pickDownloadInfo items = items ! 0"
      using ne by (simp add: pickDownloadInfo_def)
    with None show ?thesis by (simp add: pickDownloadInfo_loop_None)
  next
    case (Some x)
    then have "pickDownloadInfo items = x"
      using ne by (simp add: pickDownloadInfo_def)
    with pickDownloadInfo_loop_Some[OF Some] show ?thesis by blast
  qed
  have ex1: "pickDownloadInfo [a\<lparr>Codec := ''aac''\<rparr>, b\<lparr>Codec := ''MP3''\<rparr>, c\<lparr>Codec := ''flac''\<rparr>]
        = b\<lparr>Codec := ''MP3''\<rparr>"
    by (simp add: pickDownloadInfo_def EqualFold_mp3)
  have ex2: "pickDownloadInfo [a\<lparr>Codec := ''aac''\<rparr>, c\<lparr>Codec := ''flac''\<rparr>] = a\<lparr>Codec := ''aac''\<rparr>"
    by (simp add: pickDownloadInfo_def EqualFold_mp3)
  from spell pick ex1 ex2 show ?thesis by blast
qed

theorem pickDownloadInfo_first_mp3_else_first_witness:
  "[\<lparr>URL = ''u1'', Codec = ''aac'', Bitrate = 192\<rparr>,
    \<lparr>URL = ''u2'', Codec = ''MP3'', Bitrate = 320\<rparr>,
    \<lparr>URL = ''u3'', Codec = ''flac'', Bitrate = 900\<rparr>] \<noteq> []
   \<and> pickDownloadInfo
       [\<lparr>URL = ''u1'', Codec = ''aac'', Bitrate = 192\<rparr>,
        \<lparr>URL = ''u2'', Codec = ''MP3'', Bitrate = 320\<rparr>,
        \<lparr>URL = ''u3'', Codec = ''flac'', Bitrate = 900\<rparr>]
     = \<lparr>URL = ''u2'', Codec = ''MP3'', Bitrate = 320\<rparr>"
proof -
  let ?xs = "[\<lparr>URL = ''u1'', Codec = ''aac'', Bitrate = 192\<rparr>,
    \<lparr>URL = ''u2'', Codec = ''MP3'', Bitrate = 320\<rparr>,
    \<lparr>URL = ''u3'', Codec = ''flac'', Bitrate = 900\<rparr>]"
  have ne: "?xs \<noteq> []" by simp
  have spell: "\<And>c. EqualFold c ''mp3'' \<longleftrightarrow> c \<in> {''mp3'', ''mP3'', ''Mp3'', ''MP3''}"
    using pickDownloadInfo_first_mp3_else_first[THEN conjunct1] by blast
  from pickDownloadInfo_first_mp3_else_first[of ?xs, THEN conjunct2, THEN conjunct1] ne
  have "(\<exists>k<length ?xs. EqualFold (Codec (?xs ! k)) ''mp3''
             \<and> (\<forall>j<k. \<not> EqualFold (Codec (?xs ! j)) ''mp3'')
             \<and> pickDownloadInfo ?xs = ?xs ! k)
        \<or> ((\<forall>i\<in>set ?xs. \<not> EqualFold (Codec i) ''mp3'')
             \<and> pickDownloadInfo ?xs = ?xs ! 0)"
    by blast
  then have "pickDownloadInfo ?xs = ?xs ! 1"
    by (auto simp: spell less_Suc_eq numeral_3_eq_3)
  with ne show ?thesis by simp
qed

text \<open>
  Claim C2. When the XML body decodes to fields \<open>host\<close>, \<open>path\<close>, \<open>ts\<close>, \<open>s\<close> that are
  all non-empty and the track id is non-empty, \<open>parseDownloadInfoXML\<close> returns exactly
  \<open>https://{host}/get-mp3/{s}/{ts}{path}?track-id={id}\<close>, the four fields copied as
  they are; when one of the four fields is empty it returns an error and no URL.
\<close>

theorem parseDownloadInfoXML_assembles_url:
  "(data \<noteq> [] \<and> xml_dec data = Inr info \<and> Host info \<noteq> [] \<and> Path info \<noteq> []
      \<and> TS info \<noteq> [] \<and> S info \<noteq> [] \<and> trackID \<noteq> [] \<longrightarrow>
      parseDownloadInfoXML xml_dec data trackID =
        Inr (''https://'' @ Host info @ ''/get-mp3/'' @ S info @ ''/'' @ TS info @ Path info
               @ ''?track-id='' @ trackID))
   \<and> (xml_dec data = Inr info \<and> (Host info = [] \<or> Path info = [] \<or> TS info = [] \<or> S info = [])
        \<longrightarrow> (\<exists>err. parseDownloadInfoXML xml_dec data trackID = Inl err))"
  by (simp add: parseDownloadInfoXML_def)

theorem parseDownloadInfoXML_assembles_url_witness:
  "parseDownloadInfoXML
      (\<lambda>d. Inr \<lparr>Host = ''h'', Path = ''/p'', TS = ''123'', S = ''sig'', Region = []\<rparr>)
      ''<download-info/>'' ''42''
     = Inr ''https://h/get-mp3/sig/123/p?track-id=42''
   \<and> (\<exists>err. parseDownloadInfoXML
      (\<lambda>d. Inr \<lparr>Host = ''h'', Path = ''/p'', TS = [], S = ''sig'', Region = []\<rparr>)
      ''<download-info/>'' ''42'' = Inl err)"
  using parseDownloadInfoXML_assembles_url[of "''<download-info/>''"
              "\<lambda>d. Inr \<lparr>Host = ''h'', Path = ''/p'', TS = ''123'', S = ''sig'', Region = []\<rparr>"
              "\<lparr>Host = ''h'', Path = ''/p'', TS = ''123'', S = ''sig'', Region = []\<rparr>" "''42''"]
        parseDownloadInfoXML_assembles_url[of "''<download-info/>''"
              "\<lambda>d. Inr \<lparr>Host = ''h'', Path = ''/p'', TS = [], S = ''sig'', Region = []\<rparr>"
              "\<lparr>Host = ''h'', Path = ''/p'', TS = [], S = ''sig'', Region = []\<rparr>" "''42''"]
  by simp

section \<open>Properties of the indirection resolution\<close>

lemma parseDownloadInfoXML_Inr_nonempty:
  "parseDownloadInfoXML xml_dec data trackID = Inr u \<Longrightarrow> u \<noteq> []"
  by (auto simp: parseDownloadInfoXML_def Let_def split: if_splits sum.splits)

lemma parseDownloadInfoXML_empty:
  "parseDownloadInfoXML xml_dec [] trackID = Inl ''empty xml body''"
  by (simp add: parseDownloadInfoXML_def)

lemma req_URL_attachHeaders: "req_URL (attachHeaders c req) = req_URL req"
  by (simp add: attachHeaders_def Let_def)

text \<open>What the resolution step answers once the response is there.\<close>

lemma resolveDownloadInfoURL_response:
  assumes "infoURL \<noteq> []" and "NewRequest lib infoURL = Inr req"
    and "httpClient c (Sent w) (attachHeaders c req) = Inr resp"
  shows "resolveDownloadInfoURL lib c infoURL trackID w =
     (let body = ReadAll_Limit (Body resp) 8192 in
      if body \<noteq> [] \<and> (\<exists>src. json_Unmarshal_src lib body = Inr src \<and> src \<noteq> [])
      then Inr (projr (json_Unmarshal_src lib body))
      else (case parseDownloadInfoXML (xml_Unmarshal lib) body trackID of
              Inr xmlURL \<Rightarrow> Inr xmlURL
            | Inl xmlErr \<Rightarrow>
                if Header_Get (resp_Header resp) ''Location'' \<noteq> []
                then Inr (Header_Get (resp_Header resp) ''Location'')
                else (case Request_URL resp of
                        Some u \<Rightarrow> Inr u
                      | None \<Rightarrow> Inl (''cannot resolve download url: status=''
                                       @ itoa (StatusCode resp)))),
      w\<lparr>Sent := Sent w @ [attachHeaders c req]\<rparr>)"
  using assms
  by (auto simp: resolveDownloadInfoURL_def Do_def Let_def
           dest: parseDownloadInfoXML_Inr_nonempty
           split: sum.splits option.splits)

subsection \<open>Bodies of more than 8 KB\<close>

lemma length_ex_long_json: "length ex_long_json = 8212"
  by (simp add: ex_long_json_def)

lemma take_ex_long_json: "take 8192 ex_long_json \<noteq> ex_long_json"
proof
  assume "take 8192 ex_long_json = ex_long_json"
  then have "length (take 8192 ex_long_json) = length ex_long_json" by simp
  then show False by (simp add: length_ex_long_json)
qed

lemma take_ex_long_json_nonempty: "take 8192 ex_long_json \<noteq> []"
  by (simp add: ex_long_json_def)

lemma ex_long_resolve:
  "fst (resolveDownloadInfoURL ex_long_stdlib
         (ex_const_client ((ex_respond st ex_long_json)\<lparr>Request_URL := u\<rparr>))
         ''https://info'' ''42'' ex_world)
   = (case u of Some r \<Rightarrow> Inr r
      | None \<Rightarrow> Inl (''cannot resolve download url: status='' @ itoa st))"
  using take_ex_long_json take_ex_long_json_nonempty
  by (simp add: resolveDownloadInfoURL_def NewRequest_def ex_long_stdlib_def ex_stdlib_def
        Do_def ex_const_client_def ex_respond_def ReadAll_Limit_def Let_def Header_Get_def
        parseDownloadInfoXML_def split: option.splits)

text \<open>
  Claim C1 says of every response body that a JSON \<open>src\<close> in it is the result. The code
  decodes the first 8192 bytes only: of a JSON body of 8212 bytes with the \<open>src\<close> A the
  cut text is no JSON, nor XML, and the result is the request URL.
\<close>

theorem resolveDownloadInfoURL_long_json_body:
  "length ex_long_json = 8212
   \<and> json_Unmarshal_src ex_long_stdlib ex_long_json = Inr ''A''
   \<and> fst (resolveDownloadInfoURL ex_long_stdlib
         (ex_const_client ((ex_respond 200 ex_long_json)\<lparr>Request_URL := Some ''https://info''\<rparr>))
         ''https://info'' ''42'' ex_world) = Inr ''https://info''"
  by (simp add: ex_long_resolve length_ex_long_json) (simp add: ex_long_stdlib_def)

subsection \<open>The order of the three shapes\<close>

text \<open>
  Claim C1, amended. The three payload shapes are tried in the order JSON, XML, redirect
  on the bytes read from the response: its first 8192 bytes, read once, which are the
  whole body when it has at most 8192 bytes. If these bytes decode as JSON with a
  non-empty \<open>src\<close>, the result is that \<open>src\<close>, whatever the XML decoder, the
  \<open>Location\<close> header and the request URL would give. The URL assembled from XML is the
  result only when the JSON attempt gave no URL (a decoding error or an empty \<open>src\<close>),
  and the \<open>Location\<close> header, then the final request URL, only when neither attempt
  gave a URL.
\<close>

theorem resolveDownloadInfoURL_tries_json_xml_redirect:
  assumes "infoURL \<noteq> []" and "NewRequest lib infoURL = Inr req"
    and "httpClient c (Sent w) (attachHeaders c req) = Inr resp"
    and "body = ReadAll_Limit (Body resp) 8192"
  shows
   "(body \<noteq> [] \<and> json_Unmarshal_src lib body = Inr src \<and> src \<noteq> [] \<longrightarrow>
       fst (resolveDownloadInfoURL lib c infoURL trackID w) = Inr src)
    \<and> (\<not> (body \<noteq> [] \<and> (\<exists>s. json_Unmarshal_src lib body = Inr s \<and> s \<noteq> []))
        \<and> parseDownloadInfoXML (xml_Unmarshal lib) body trackID = Inr xmlURL \<longrightarrow>
       fst (resolveDownloadInfoURL lib c infoURL trackID w) = Inr xmlURL)
    \<and> (\<not> (body \<noteq> [] \<and> (\<exists>s. json_Unmarshal_src lib body = Inr s \<and> s \<noteq> []))
        \<and> parseDownloadInfoXML (xml_Unmarshal lib) body trackID = Inl xmlErr \<longrightarrow>
       fst (resolveDownloadInfoURL lib c infoURL trackID w) =
         (if Header_Get (resp_Header resp) ''Location'' \<noteq> []
          then Inr (Header_Get (resp_Header resp) ''Location'')
          else (case Request_URL resp of
                  Some u \<Rightarrow> Inr u
                | None \<Rightarrow> Inl (''cannot resolve download url: status='' @ itoa (StatusCode resp)))))
    \<and> body = take 8192 (Data (Body resp))
    \<and> (length (Data (Body resp)) \<le> 8192 \<longrightarrow> body = Data (Body resp))"
proof -
  note r = resolveDownloadInfoURL_response[OF assms(1-3), of trackID]
  have b: "body = take 8192 (Data (Body resp))"
    using assms(4) by (simp add: ReadAll_Limit_def)
  have b': "body = Data (Body resp)" if "length (Data (Body resp)) \<le> 8192"
    using that b by simp
  have j: "fst (resolveDownloadInfoURL lib c infoURL trackID w) = Inr src"
    if "body \<noteq> []" "json_Unmarshal_src lib body = Inr src" "src \<noteq> []"
    using that assms(4) by (auto simp: r Let_def)
  have x: "fst (resolveDownloadInfoURL lib c infoURL trackID w) = Inr xmlURL"
    if "\<not> (body \<noteq> [] \<and> (\<exists>s. json_Unmarshal_src lib body = Inr s \<and> s \<noteq> []))"
       "parseDownloadInfoXML (xml_Unmarshal lib) body trackID = Inr xmlURL"
    using that assms(4) by (auto simp: r Let_def)
  have l: "fst (resolveDownloadInfoURL lib c infoURL trackID w) =
         (if Header_Get (resp_Header resp) ''Location'' \<noteq> []
          then Inr (Header_Get (resp_Header resp) ''Location'')
          else (case Request_URL resp of
                  Some u \<Rightarrow> Inr u
                | None \<Rightarrow> Inl (''cannot resolve download url: status='' @ itoa (StatusCode resp))))"
    if "\<not> (body \<noteq> [] \<and> (\<exists>s. json_Unmarshal_src lib body = Inr s \<and> s \<noteq> []))"
       "parseDownloadInfoXML (xml_Unmarshal lib) body trackID = Inl xmlErr"
    using that assms(4) by (auto simp: r Let_def)
  from j x l b b' show ?thesis by blast
qed

text \<open>The witness, each time with a \<open>Location\<close> header and a request URL present:
  a body that both decoders accept resolves to the \<open>src\<close> of the JSON shape, a body
  that is XML only to the assembled URL, and a body that is neither to the header. Each
  body is under 8 KB and read whole.\<close>

theorem resolveDownloadInfoURL_tries_json_xml_redirect_witness:
  \<open>fst (resolveDownloadInfoURL
          ((ex_stdlib (ex_dto ''a'' ''t''))
             \<lparr>json_Unmarshal_src := (\<lambda>b. Inr ''A''), xml_Unmarshal := (\<lambda>d. Inr ex_info)\<rparr>)
          (ex_const_client ((ex_respond 200 ''{"src":"A"}'')
              \<lparr>resp_Header := [(''Location'', ''https://loc'')],
                Request_URL := Some ''https://info''\<rparr>))
          ''https://info'' ''42'' ex_world) = Inr ''A''
   \<and> fst (resolveDownloadInfoURL (ex_stdlib (ex_dto ''a'' ''t''))
          (ex_const_client
             ((ex_respond 200
                 ''<download-info><host>h</host><path>/p</path><ts>123</ts><s>sig</s></download-info>'')
              \<lparr>resp_Header := [(''Location'', ''https://loc'')],
                Request_URL := Some ''https://info''\<rparr>))
          ''https://info'' ''42'' ex_world) = Inr ''https://h/get-mp3/sig/123/p?track-id=42''
   \<and> fst (resolveDownloadInfoURL (ex_stdlib (ex_dto ''a'' ''t''))
          (ex_const_client ((ex_respond 302 ''Found'')
              \<lparr>resp_Header := [(''Location'', ''https://loc'')],
                Request_URL := Some ''https://info''\<rparr>))
          ''https://info'' ''42'' ex_world) = Inr ''https://loc''
   \<and> ReadAll_Limit (Body (ex_respond 200 ''{"src":"A"}'')) 8192
       = Data (Body (ex_respond 200 ''{"src":"A"}''))\<close>
proof -
  let ?req = "\<lparr> Method = ''GET'', req_URL = ''https://info'', Header = [] \<rparr>"
  let ?hdr = "\<lambda>r. r\<lparr>resp_Header := [(''Location'', ''https://loc'')],
                       Request_URL := Some ''https://info''\<rparr>"
  have 1: "''https://info'' \<noteq> []" by simp
  \<comment> \<open>the body is accepted by both decoders\<close>
  let ?lib = "(ex_stdlib (ex_dto ''a'' ''t''))
     \<lparr>json_Unmarshal_src := (\<lambda>b. Inr ''A''), xml_Unmarshal := (\<lambda>d. Inr ex_info)\<rparr>"
  let ?resp = \<open>?hdr (ex_respond 200 ''{"src":"A"}'')\<close>
  let ?c = "ex_const_client ?resp"
  have 2: "NewRequest ?lib ''https://info'' = Inr ?req"
    by (simp add: NewRequest_def ex_stdlib_def)
  have 3: "httpClient ?c (Sent ex_world) (attachHeaders ?c ?req) = Inr ?resp"
    by (simp add: ex_const_client_def)
  have 4: \<open>''{"src":"A"}'' = ReadAll_Limit (Body ?resp) 8192\<close>
    by (simp add: ReadAll_Limit_def ex_respond_def)
  have 5: \<open>''{"src":"A"}'' \<noteq> [] \<and> json_Unmarshal_src ?lib ''{"src":"A"}'' = Inr ''A''
            \<and> ''A'' \<noteq> []\<close>
    by (simp add: ex_stdlib_def)
  from resolveDownloadInfoURL_tries_json_xml_redirect
         [OF 1 2 3 4, where src = "''A''" and trackID = "''42''", THEN conjunct1] 5
  have json: "fst (resolveDownloadInfoURL ?lib ?c ''https://info'' ''42'' ex_world) = Inr ''A''"
    by blast
  from resolveDownloadInfoURL_tries_json_xml_redirect
         [OF 1 2 3 4, THEN conjunct2, THEN conjunct2, THEN conjunct2, THEN conjunct2]
  have \<open>''{"src":"A"}'' = Data (Body ?resp)\<close>
    by (simp add: ex_respond_def)
  with 4 have whole: \<open>ReadAll_Limit (Body (ex_respond 200 ''{"src":"A"}'')) 8192
                       = Data (Body (ex_respond 200 ''{"src":"A"}''))\<close>
    by (simp add: ex_respond_def ReadAll_Limit_def)
  \<comment> \<open>the body is XML only\<close>
  let ?lib' = "ex_stdlib (ex_dto ''a'' ''t'')"
  let ?xml = "''<download-info><host>h</host><path>/p</path><ts>123</ts><s>sig</s></download-info>''"
  let ?respx = "?hdr (ex_respond 200 ?xml)"
  let ?cx = "ex_const_client ?respx"
  have 2: "NewRequest ?lib' ''https://info'' = Inr ?req"
    by (simp add: NewRequest_def ex_stdlib_def)
  have 3: "httpClient ?cx (Sent ex_world) (attachHeaders ?cx ?req) = Inr ?respx"
    by (simp add: ex_const_client_def)
  have 4: "?xml = ReadAll_Limit (Body ?respx) 8192"
    by (simp add: ReadAll_Limit_def ex_respond_def)
  have 5: "\<not> (?xml \<noteq> [] \<and> (\<exists>s. json_Unmarshal_src ?lib' ?xml = Inr s \<and> s \<noteq> []))
      \<and> parseDownloadInfoXML (xml_Unmarshal ?lib') ?xml ''42''
          = Inr ''https://h/get-mp3/sig/123/p?track-id=42''"
    by (simp add: ex_stdlib_def parseDownloadInfoXML_def ex_info_def)
  from resolveDownloadInfoURL_tries_json_xml_redirect
         [OF 1 2 3 4, where xmlURL = "''https://h/get-mp3/sig/123/p?track-id=42''"
            and trackID = "''42''", THEN conjunct2, THEN conjunct1] 5
  have xml: "fst (resolveDownloadInfoURL ?lib' ?cx ''https://info'' ''42'' ex_world)
               = Inr ''https://h/get-mp3/sig/123/p?track-id=42''"
    by blast
  \<comment> \<open>the body is neither\<close>
  let ?respr = "?hdr (ex_respond 302 ''Found'')"
  let ?cr = "ex_const_client ?respr"
  have 3: "httpClient ?cr (Sent ex_world) (attachHeaders ?cr ?req) = Inr ?respr"
    by (simp add: ex_const_client_def)
  have 4: "''Found'' = ReadAll_Limit (Body ?respr) 8192"
    by (simp add: ReadAll_Limit_def ex_respond_def)
  have 5: "\<not> (''Found'' \<noteq> [] \<and> (\<exists>s. json_Unmarshal_src ?lib' ''Found'' = Inr s \<and> s \<noteq> []))
      \<and> parseDownloadInfoXML (xml_Unmarshal ?lib') ''Found'' ''42'' = Inl ''EOF''"
    by (simp add: ex_stdlib_def parseDownloadInfoXML_def)
  from resolveDownloadInfoURL_tries_json_xml_redirect
         [OF 1 2 3 4, where xmlErr = "''EOF''" and trackID = "''42''",
          THEN conjunct2, THEN conjunct2, THEN conjunct1] 5
  have "fst (resolveDownloadInfoURL ?lib' ?cr ''https://info'' ''42'' ex_world) =
         (if Header_Get (resp_Header ?respr) ''Location'' \<noteq> []
          then Inr (Header_Get (resp_Header ?respr) ''Location'')
          else (case Request_URL ?respr of
                  Some u \<Rightarrow> Inr u
                | None \<Rightarrow> Inl (''cannot resolve download url: status='' @ itoa (StatusCode ?respr))))"
    by blast
  then have loc: "fst (resolveDownloadInfoURL ?lib' ?cr ''https://info'' ''42'' ex_world)
                    = Inr ''https://loc''"
    by (simp add: Header_Get_def)
  from json xml loc whole show ?thesis by blast
qed

text \<open>
  Claim C9 says that every response whose body contains JSON with a non-empty \<open>src\<close>
  resolves to it under every status. Of the JSON body of 8212 bytes the first 8192 are
  decoded, no shape fits them, and under status 404, with no \<open>Location\<close> header and
  no request URL, the resolution fails.
\<close>

theorem resolveDownloadInfoURL_long_json_body_fails:
  "length ex_long_json = 8212
   \<and> json_Unmarshal_src ex_long_stdlib ex_long_json = Inr ''A''
   \<and> fst (resolveDownloadInfoURL ex_long_stdlib
         (ex_const_client (ex_respond 404 ex_long_json)) ''https://info'' ''42'' ex_world)
       = Inl ''cannot resolve download url: status=404''"
proof -
  have "ex_respond 404 ex_long_json = (ex_respond 404 ex_long_json)\<lparr>Request_URL := None\<rparr>"
    by (simp add: ex_respond_def)
  then have "fst (resolveDownloadInfoURL ex_long_stdlib
         (ex_const_client (ex_respond 404 ex_long_json)) ''https://info'' ''42'' ex_world)
       = Inl (''cannot resolve download url: status='' @ itoa 404)"
    using ex_long_resolve[where st = 404 and u = None] by simp
  moreover have "itoa 404 = ''404''" by (simp add: itoa_def uitoa.simps digit_def)
  moreover have "json_Unmarshal_src ex_long_stdlib ex_long_json = Inr ''A''"
    by (simp add: ex_long_stdlib_def)
  ultimately show ?thesis by (simp add: length_ex_long_json)
qed

text \<open>
  Claim C9, amended. The resolution step does not look at the HTTP status of the
  response: with the status replaced by any other, the result is the same, except for
  the final failure, whose message quotes the status. So when the bytes read from the
  body, its first 8192 bytes and the whole body when it has at most 8192 bytes, have the
  JSON shape with a non-empty \<open>src\<close>, or else are not empty and have the XML shape with
  its four fields, the resolution returns that URL under every status.
\<close>

theorem resolveDownloadInfoURL_status_blind:
  assumes "infoURL \<noteq> []" and "NewRequest lib infoURL = Inr req"
    and "httpClient c (Sent w) (attachHeaders c req) = Inr resp"
    and "httpClient c' (Sent w) (attachHeaders c' req) = Inr (resp\<lparr>StatusCode := st\<rparr>)"
    and "body = ReadAll_Limit (Body resp) 8192"
  shows
   "(fst (resolveDownloadInfoURL lib c' infoURL trackID w) =
       fst (resolveDownloadInfoURL lib c infoURL trackID w)
     \<or> (fst (resolveDownloadInfoURL lib c infoURL trackID w) =
           Inl (''cannot resolve download url: status='' @ itoa (StatusCode resp))
         \<and> fst (resolveDownloadInfoURL lib c' infoURL trackID w) =
           Inl (''cannot resolve download url: status='' @ itoa st)))
    \<and> (body \<noteq> [] \<and> json_Unmarshal_src lib body = Inr src \<and> src \<noteq> [] \<longrightarrow>
         fst (resolveDownloadInfoURL lib c' infoURL trackID w) = Inr src)
    \<and> (\<not> (\<exists>s. json_Unmarshal_src lib body = Inr s \<and> s \<noteq> []) \<and> body \<noteq> []
         \<and> xml_Unmarshal lib body = Inr info \<and> Host info \<noteq> [] \<and> Path info \<noteq> []
         \<and> TS info \<noteq> [] \<and> S info \<noteq> [] \<longrightarrow>
         fst (resolveDownloadInfoURL lib c' infoURL trackID w) =
           Inr (''https://'' @ Host info @ ''/get-mp3/'' @ S info @ ''/'' @ TS info @ Path info
                  @ (if trackID \<noteq> [] then ''?track-id='' @ trackID else [])))
    \<and> body = take 8192 (Data (Body resp))
    \<and> (length (Data (Body resp)) \<le> 8192 \<longrightarrow> body = Data (Body resp))"
proof -
  note r = resolveDownloadInfoURL_response[OF assms(1-3), of trackID]
  note r' = resolveDownloadInfoURL_response[OF assms(1,2,4), of trackID]
  have b: "body = take 8192 (Data (Body resp))"
    using assms(5) by (simp add: ReadAll_Limit_def)
  have b': "body = Data (Body resp)" if "length (Data (Body resp)) \<le> 8192"
    using that b by simp
  have inv: "fst (resolveDownloadInfoURL lib c' infoURL trackID w) =
       fst (resolveDownloadInfoURL lib c infoURL trackID w)
     \<or> (fst (resolveDownloadInfoURL lib c infoURL trackID w) =
           Inl (''cannot resolve download url: status='' @ itoa (StatusCode resp))
         \<and> fst (resolveDownloadInfoURL lib c' infoURL trackID w) =
           Inl (''cannot resolve download url: status='' @ itoa st))"
    by (cases "parseDownloadInfoXML (xml_Unmarshal lib) (ReadAll_Limit (Body resp) 8192) trackID";
        cases "Request_URL resp"; auto simp: r r' Let_def parseDownloadInfoXML_empty)
  have j: "fst (resolveDownloadInfoURL lib c' infoURL trackID w) = Inr src"
    if "body \<noteq> []" "json_Unmarshal_src lib body = Inr src" "src \<noteq> []"
    using that assms(5) by (auto simp: r' Let_def)
  have x: "fst (resolveDownloadInfoURL lib c' infoURL trackID w) =
           Inr (''https://'' @ Host info @ ''/get-mp3/'' @ S info @ ''/'' @ TS info @ Path info
                  @ (if trackID \<noteq> [] then ''?track-id='' @ trackID else []))"
    if "\<not> (\<exists>s. json_Unmarshal_src lib body = Inr s \<and> s \<noteq> [])" "body \<noteq> []"
       "xml_Unmarshal lib body = Inr info" "Host info \<noteq> []" "Path info \<noteq> []"
       "TS info \<noteq> []" "S info \<noteq> []"
    using that assms(5) by (auto simp: r' Let_def parseDownloadInfoXML_def)
  from inv j x b b' show ?thesis by blast
qed

text \<open>The witness: the JSON shape in a body under 8 KB, read whole, resolves to its
  \<open>src\<close> under status 404.\<close>

theorem resolveDownloadInfoURL_status_blind_witness:
  \<open>fst (resolveDownloadInfoURL (ex_stdlib (ex_dto ''a'' ''t''))
          (ex_const_client (ex_respond 404 ''{"src":"https://cdn/audio.mp3"}''))
          ''https://storage/info-mp3'' ''42'' ex_world) = Inr ''https://cdn/audio.mp3''
   \<and> ReadAll_Limit (Body (ex_respond 404 ''{"src":"https://cdn/audio.mp3"}'')) 8192
       = Data (Body (ex_respond 404 ''{"src":"https://cdn/audio.mp3"}''))\<close>
proof -
  let ?lib = "ex_stdlib (ex_dto ''a'' ''t'')"
  let ?resp = \<open>ex_respond 200 ''{"src":"https://cdn/audio.mp3"}''\<close>
  let ?c = "ex_const_client ?resp"
  let ?c' = \<open>ex_const_client (ex_respond 404 ''{"src":"https://cdn/audio.mp3"}'')\<close>
  let ?req = "\<lparr> Method = ''GET'', req_URL = ''https://storage/info-mp3'', Header = [] \<rparr>"
  have 1: "''https://storage/info-mp3'' \<noteq> []" by simp
  have 2: "NewRequest ?lib ''https://storage/info-mp3'' = Inr ?req"
    by (simp add: NewRequest_def ex_stdlib_def)
  have 3: "httpClient ?c (Sent ex_world) (attachHeaders ?c ?req) = Inr ?resp"
    by (simp add: ex_const_client_def)
  have 4: "httpClient ?c' (Sent ex_world) (attachHeaders ?c' ?req)
             = Inr (?resp\<lparr>StatusCode := 404\<rparr>)"
    by (simp add: ex_const_client_def ex_respond_def)
  have 5: \<open>''{"src":"https://cdn/audio.mp3"}'' = ReadAll_Limit (Body ?resp) 8192\<close>
    by (simp add: ReadAll_Limit_def ex_respond_def)
  have 6: \<open>''{"src":"https://cdn/audio.mp3"}'' \<noteq> []
      \<and> json_Unmarshal_src ?lib ''{"src":"https://cdn/audio.mp3"}'' = Inr ''https://cdn/audio.mp3''
      \<and> ''https://cdn/audio.mp3'' \<noteq> []\<close>
    by (simp add: ex_stdlib_def)
  from resolveDownloadInfoURL_status_blind
         [OF 1 2 3 4 5, where src = "''https://cdn/audio.mp3''" and trackID = "''42''",
          THEN conjunct2, THEN conjunct1] 6
  have res: \<open>fst (resolveDownloadInfoURL ?lib ?c' ''https://storage/info-mp3'' ''42'' ex_world)
               = Inr ''https://cdn/audio.mp3''\<close>
    by blast
  from resolveDownloadInfoURL_status_blind
         [OF 1 2 3 4 5, THEN conjunct2, THEN conjunct2, THEN conjunct2, THEN conjunct2]
  have \<open>''{"src":"https://cdn/audio.mp3"}'' = Data (Body ?resp)\<close>
    by (simp add: ex_respond_def)
  then have whole: \<open>ReadAll_Limit (Body (ex_respond 404 ''{"src":"https://cdn/audio.mp3"}'')) 8192
       = Data (Body (ex_respond 404 ''{"src":"https://cdn/audio.mp3"}''))\<close>
    by (simp add: ex_respond_def ReadAll_Limit_def)
  from res whole show ?thesis by blast
qed

section \<open>Properties of the catalog client\<close>

lemma go_div_nonneg: "0 \<le> a \<Longrightarrow> 0 < b \<Longrightarrow> go_div a b = a div b"
  by (simp add: go_div_def)

lemma SearchTracks_loop_take:
  "SearchTracks_loop limit i results acc = acc @ map mapTrack (take (nat (limit - i)) results)"
proof (induction results arbitrary: i acc)
  case Nil
  then show ?case by simp
next
  case (Cons t ts)
  show ?case
  proof (cases "i \<ge> limit")
    case True
    then show ?thesis by simp
  next
    case False
    then have "nat (limit - i) = Suc (nat (limit - (i + 1)))" by simp
    with False Cons.IH[of "i + 1" "acc @ [mapTrack t]"] show ?thesis by simp
  qed
qed

subsection \<open>The URL of a search\<close>

lemma digit_escape: "d < 10 \<Longrightarrow> escapeByte (digit d) = [digit d]"
proof -
  assume "d < 10"
  then consider "d = 0" | "d = 1" | "d = 2" | "d = 3" | "d = 4" | "d = 5" | "d = 6"
    | "d = 7" | "d = 8" | "d = 9" by atomize_elim arith
  then show ?thesis
    by cases (simp_all add: digit_def escapeByte_def shouldEscape_def)
qed

lemma QueryEscape_uitoa: "QueryEscape (uitoa n) = uitoa n"
proof (induction n rule: uitoa.induct)
  case (1 n)
  show ?case
  proof (cases "n < 10")
    case True
    then show ?thesis by (simp add: uitoa.simps[of n] QueryEscape_def digit_escape)
  next
    case False
    have "n mod 10 < 10" by simp
    with False 1 show ?thesis
      by (simp add: uitoa.simps[of n] QueryEscape_def digit_escape)
  qed
qed

lemma QueryEscape_itoa: "QueryEscape (itoa i) = itoa i"
proof -
  have "QueryEscape (c # s) = escapeByte c @ QueryEscape s" for c s
    by (simp add: QueryEscape_def)
  then show ?thesis
    by (simp add: itoa_def QueryEscape_uitoa escapeByte_def shouldEscape_def)
qed

lemma search_URL_text:
  "search_URL query page =
     ''https://api.music.yandex.net/search?nococrrect=true&page='' @ itoa page
       @ ''&text='' @ QueryEscape query @ ''&type=track''"
  by (simp add: search_URL_def Values_Encode_def sort_by_key_def apiBase_def QueryEscape_itoa)
     (simp add: QueryEscape_def escapeByte_def shouldEscape_def)

subsection \<open>SearchTracks and GetTrack\<close>

lemma SearchTracks_invalid:
  "TrimSpace query = [] \<Longrightarrow>
     SearchTracks lib c query limit offset w = (Inl ''query is empty'', w)"
  by (simp add: SearchTracks_def)

lemma SearchTracks_limit_default:
  "limit \<le> 0 \<Longrightarrow>
     SearchTracks lib c query limit offset w = SearchTracks lib c query 10 offset w"
  by (simp add: SearchTracks_def)

lemma SearchTracks_offset_clamp:
  "offset < 0 \<Longrightarrow>
     SearchTracks lib c query limit offset w = SearchTracks lib c query limit 0 w"
  by (simp add: SearchTracks_def)

lemma SearchTracks_sent:
  assumes "TrimSpace query \<noteq> []" "0 < limit" "0 \<le> offset"
    and "NewRequest_err lib (search_URL query (offset div limit)) = None"
  shows "Sent (snd (SearchTracks lib c query limit offset w)) =
           Sent w @ [attachHeaders c \<lparr> Method = ''GET'',
                       req_URL = search_URL query (offset div limit), Header = [] \<rparr>]"
  using assms
  by (simp add: SearchTracks_def go_div_nonneg NewRequest_def Do_def Let_def
           split: sum.splits prod.splits)

lemma SearchTracks_page:
  assumes "TrimSpace query \<noteq> []" "0 < limit" "0 \<le> offset"
    and "NewRequest lib (search_URL query (offset div limit)) = Inr req"
    and "httpClient c (Sent w) (attachHeaders c req) = Inr resp"
    and "StatusCode resp = 200"
    and "json_searchResponse lib (Body resp) = Inr results"
  shows "fst (SearchTracks lib c query limit offset w) =
           Inr (map mapTrack (take (nat limit) results))"
  using assms
  by (simp add: SearchTracks_def go_div_nonneg Do_def Let_def SearchTracks_loop_take)

lemma SearchTracks_Inr:
  assumes "SearchTracks lib c query limit offset w = (Inr tracks, w')"
  shows "\<exists>b results. json_searchResponse lib b = Inr results
            \<and> tracks = map mapTrack (take (nat (if limit \<le> 0 then 10 else limit)) results)"
  using assms
  by (auto simp: SearchTracks_def Do_def Let_def SearchTracks_loop_take
           split: if_splits sum.splits prod.splits)

lemma GetTrack_Inr:
  assumes "GetTrack lib c id' w = (Inr tr, w')"
  shows "\<exists>b result. json_trackResponse lib b = Inr result \<and> result \<noteq> []
            \<and> tr = mapTrack (result ! 0)"
  using assms
  by (auto simp: GetTrack_def Do_def Let_def
           split: if_splits sum.splits prod.splits)

lemma TrimSpace_daft_punk: "TrimSpace ''daft punk'' = ''daft punk''"
  by (simp add: TrimSpace_def leadSpace_def trailSpace_def spaceRunes_def)

text \<open>
  Claim C4. A \<open>limit\<close> of 0 or less behaves as 10 and a negative \<open>offset\<close> as 0. For a
  query that is not blank, \<open>limit > 0\<close> and \<open>offset \<ge> 0\<close>, \<open>SearchTracks\<close> sends one
  request, for the page \<open>offset div limit\<close>, and from a page it can decode it returns
  the mapping of the first \<open>limit\<close> results, or of all of them when the page holds
  fewer: never more than \<open>limit\<close> tracks.
\<close>

theorem SearchTracks_page_and_limit:
  "(limit \<le> 0 \<longrightarrow>
      SearchTracks lib c query limit offset w = SearchTracks lib c query 10 offset w)
   \<and> (offset < 0 \<longrightarrow>
      SearchTracks lib c query limit offset w = SearchTracks lib c query limit 0 w)
   \<and> (TrimSpace query \<noteq> [] \<and> 0 < limit \<and> 0 \<le> offset
        \<and> NewRequest_err lib (search_URL query (offset div limit)) = None \<longrightarrow>
      Sent (snd (SearchTracks lib c query limit offset w)) =
        Sent w @ [attachHeaders c
           \<lparr> Method = ''GET'',
             req_URL = ''https://api.music.yandex.net/search?nococrrect=true&page=''
                         @ itoa (offset div limit) @ ''&text='' @ QueryEscape query
                         @ ''&type=track'',
             Header = [] \<rparr>])
   \<and> (TrimSpace query \<noteq> [] \<and> 0 < limit \<and> 0 \<le> offset
        \<and> NewRequest lib (search_URL query (offset div limit)) = Inr req
        \<and> httpClient c (Sent w) (attachHeaders c req) = Inr resp
        \<and> StatusCode resp = 200
        \<and> json_searchResponse lib (Body resp) = Inr results \<longrightarrow>
      fst (SearchTracks lib c query limit offset w) =
        Inr (map mapTrack (take (nat limit) results)))
   \<and> (0 < limit \<and> SearchTracks lib c query limit offset w = (Inr tracks, w') \<longrightarrow>
      int (length tracks) \<le> limit)"
proof -
  have len: "int (length tracks) \<le> limit"
    if "0 < limit" "SearchTracks lib c query limit offset w = (Inr tracks, w')"
    using SearchTracks_Inr[OF that(2)] that(1) by auto
  have sent: "Sent (snd (SearchTracks lib c query limit offset w)) =
        Sent w @ [attachHeaders c
           \<lparr> Method = ''GET'',
             req_URL = ''https://api.music.yandex.net/search?nococrrect=true&page=''
                         @ itoa (offset div limit) @ ''&text='' @ QueryEscape query
                         @ ''&type=track'',
             Header = [] \<rparr>]"
    if "TrimSpace query \<noteq> []" "0 < limit" "0 \<le> offset"
       "NewRequest_err lib (search_URL query (offset div limit)) = None"
    using SearchTracks_sent[OF that] by (simp only: search_URL_text)
  have page: "fst (SearchTracks lib c query limit offset w) =
        Inr (map mapTrack (take (nat limit) results))"
    if "TrimSpace query \<noteq> []" "0 < limit" "0 \<le> offset"
       "NewRequest lib (search_URL query (offset div limit)) = Inr req"
       "httpClient c (Sent w) (attachHeaders c req) = Inr resp"
       "StatusCode resp = 200" "json_searchResponse lib (Body resp) = Inr results"
    using SearchTracks_page[OF that] .
  show ?thesis
    using SearchTracks_limit_default[of limit lib c query offset w]
      SearchTracks_offset_clamp[of offset lib c query limit w] sent page len
    by blast
qed

text \<open>The witness: limit 2 and offset 5 ask for page 2, and of the three results of
  the page the first two come back; limit 0 is limit 10 and offset -3 is offset 0.\<close>

theorem SearchTracks_page_and_limit_witness:
  "fst (SearchTracks (ex_stdlib (ex_dto ''Daft Punk'' ''One More Time''))
          (ex_client (Inl ''unused'')) ''daft punk'' 2 5 ex_world)
     = Inr (map mapTrack [ex_dto ''Daft Punk'' ''One More Time'',
                          (ex_dto ''Daft Punk'' ''One More Time'')\<lparr>ID_dto := ''43''\<rparr>])
   \<and> map req_URL (Sent (snd (SearchTracks (ex_stdlib (ex_dto ''Daft Punk'' ''One More Time''))
          (ex_client (Inl ''unused'')) ''daft punk'' 2 5 ex_world)))
     = [''https://api.music.yandex.net/search?nococrrect=true&page=2&text=daft+punk&type=track'']
   \<and> SearchTracks (ex_stdlib (ex_dto ''Daft Punk'' ''One More Time''))
          (ex_client (Inl ''unused'')) ''daft punk'' 0 5 ex_world
     = SearchTracks (ex_stdlib (ex_dto ''Daft Punk'' ''One More Time''))
          (ex_client (Inl ''unused'')) ''daft punk'' 10 5 ex_world
   \<and> SearchTracks (ex_stdlib (ex_dto ''Daft Punk'' ''One More Time''))
          (ex_client (Inl ''unused'')) ''daft punk'' 2 (- 3) ex_world
     = SearchTracks (ex_stdlib (ex_dto ''Daft Punk'' ''One More Time''))
          (ex_client (Inl ''unused'')) ''daft punk'' 2 0 ex_world
   \<and> int (length (map mapTrack [ex_dto ''Daft Punk'' ''One More Time'',
                          (ex_dto ''Daft Punk'' ''One More Time'')\<lparr>ID_dto := ''43''\<rparr>])) \<le> 2"
proof -
  let ?dto = "ex_dto ''Daft Punk'' ''One More Time''"
  let ?lib = "ex_stdlib ?dto"
  let ?c = "ex_client (Inl ''unused'')"
  let ?url = "''https://api.music.yandex.net/search?nococrrect=true&page=2&text=daft+punk&type=track''"
  let ?req = "\<lparr> Method = ''GET'', req_URL = ?url, Header = [] \<rparr>"
  let ?tracks = "map mapTrack [?dto, ?dto\<lparr>ID_dto := ''43''\<rparr>]"
  have u: "search_URL ''daft punk'' (5 div 2) = ?url"
    by (simp add: search_URL_text itoa_def uitoa.simps digit_def QueryEscape_def
          escapeByte_def shouldEscape_def)
  have t: "TrimSpace ''daft punk'' \<noteq> []" by (simp add: TrimSpace_daft_punk)
  have n: "NewRequest_err ?lib (search_URL ''daft punk'' (5 div 2)) = None"
    by (simp add: ex_stdlib_def)
  have n': "NewRequest ?lib (search_URL ''daft punk'' (5 div 2)) = Inr ?req"
    by (simp only: u) (simp add: NewRequest_def ex_stdlib_def)
  have h: "httpClient ?c (Sent ex_world) (attachHeaders ?c ?req) = Inr (ex_respond 200 ''SEARCH'')"
    by (simp add: ex_client_def req_URL_attachHeaders apiBase_def)
  have s: "StatusCode (ex_respond 200 ''SEARCH'') = 200" by (simp add: ex_respond_def)
  have j: "json_searchResponse ?lib (Body (ex_respond 200 ''SEARCH''))
             = Inr [?dto, ?dto\<lparr>ID_dto := ''43''\<rparr>, ?dto\<lparr>ID_dto := ''44''\<rparr>]"
    by (simp add: ex_stdlib_def ex_respond_def)
  note inst = SearchTracks_page_and_limit
                [where query = "''daft punk''" and limit = 2 and offset = 5 and lib = "?lib"
                   and c = "?c" and w = ex_world]
  from inst[THEN conjunct2, THEN conjunct2, THEN conjunct1] t n
  have sent: "Sent (snd (SearchTracks ?lib ?c ''daft punk'' 2 5 ex_world)) =
        Sent ex_world @ [attachHeaders ?c
           \<lparr> Method = ''GET'',
             req_URL = ''https://api.music.yandex.net/search?nococrrect=true&page=''
                         @ itoa (5 div 2) @ ''&text='' @ QueryEscape ''daft punk''
                         @ ''&type=track'',
             Header = [] \<rparr>]"
    by simp
  from inst[where req = "?req" and resp = "ex_respond 200 ''SEARCH''"
              and results = "[?dto, ?dto\<lparr>ID_dto := ''43''\<rparr>, ?dto\<lparr>ID_dto := ''44''\<rparr>]",
           THEN conjunct2, THEN conjunct2, THEN conjunct2, THEN conjunct1] t n' h s j
  have "fst (SearchTracks ?lib ?c ''daft punk'' 2 5 ex_world) =
        Inr (map mapTrack (take (nat 2) [?dto, ?dto\<lparr>ID_dto := ''43''\<rparr>, ?dto\<lparr>ID_dto := ''44''\<rparr>]))"
    by simp
  then have res: "fst (SearchTracks ?lib ?c ''daft punk'' 2 5 ex_world) = Inr ?tracks"
    by (simp add: numeral_2_eq_2)
  have urls: "map req_URL (Sent (snd (SearchTracks ?lib ?c ''daft punk'' 2 5 ex_world))) = [?url]"
    unfolding sent
    by (simp add: ex_world_def req_URL_attachHeaders itoa_def uitoa.simps digit_def
          QueryEscape_def escapeByte_def shouldEscape_def)
  from SearchTracks_page_and_limit
         [where query = "''daft punk''" and limit = 0 and offset = 5 and lib = "?lib"
            and c = "?c" and w = ex_world, THEN conjunct1]
  have dflt: "SearchTracks ?lib ?c ''daft punk'' 0 5 ex_world
                = SearchTracks ?lib ?c ''daft punk'' 10 5 ex_world"
    by simp
  from SearchTracks_page_and_limit
         [where query = "''daft punk''" and limit = 2 and offset = "- 3" and lib = "?lib"
            and c = "?c" and w = ex_world, THEN conjunct2, THEN conjunct1]
  have clamp: "SearchTracks ?lib ?c ''daft punk'' 2 (- 3) ex_world
                = SearchTracks ?lib ?c ''daft punk'' 2 0 ex_world"
    by simp
  from res have run: "SearchTracks ?lib ?c ''daft punk'' 2 5 ex_world
      = (Inr ?tracks, snd (SearchTracks ?lib ?c ''daft punk'' 2 5 ex_world))"
    by (metis prod.collapse)
  from inst[where tracks = "?tracks" and w' = "snd (SearchTracks ?lib ?c ''daft punk'' 2 5 ex_world)",
            THEN conjunct2, THEN conjunct2, THEN conjunct2, THEN conjunct2] run
  have len: "int (length ?tracks) \<le> 2" by simp
  from res urls dflt clamp len show ?thesis by blast
qed

subsection \<open>Blank queries\<close>

lemma spaceRunes_nonempty: "r \<in> set spaceRunes \<Longrightarrow> r \<noteq> []"
  by (auto simp: spaceRunes_def)

lemma leadSpace_rune: "r \<in> set spaceRunes \<Longrightarrow> leadSpace (r @ rest) = length r"
  apply (simp add: spaceRunes_def)
  apply (elim disjE)
  apply (simp_all add: leadSpace_def spaceRunes_def)
  done

lemma TrimLeft_fuel_spaces:
  "set rs \<subseteq> set spaceRunes \<Longrightarrow> length (concat rs) \<le> n \<Longrightarrow> TrimLeft_fuel n (concat rs) = []"
proof (induction rs arbitrary: n)
  case Nil
  then show ?case by (cases n) (simp_all add: leadSpace_def spaceRunes_def)
next
  case (Cons r rs)
  from Cons.prems(1) have r: "r \<in> set spaceRunes" by simp
  then have ne: "r \<noteq> []" by (rule spaceRunes_nonempty)
  with Cons.prems(2) obtain m where n: "n = Suc m" by (cases n) auto
  have "length (concat rs) \<le> m" using Cons.prems(2) ne n by (cases r) auto
  with Cons.IH[of m] Cons.prems(1) have "TrimLeft_fuel m (concat rs) = []" by simp
  then show ?case using ne by (simp add: n leadSpace_rune[OF r])
qed

lemma TrimSpace_spaces:
  "set rs \<subseteq> set spaceRunes \<Longrightarrow> TrimSpace (concat rs) = []"
  by (simp add: TrimSpace_def TrimLeft_fuel_spaces)

text \<open>
  Claim C5. For a query that \<open>TrimSpace\<close> empties, which every sequence of white space
  runes is, and the empty query among them, \<open>SearchTracks\<close> fails with the validation
  error \<open>query is empty\<close>; for the empty id \<open>GetTrack\<close> and \<open>GetDownloadURL\<close> fail with
  \<open>track id is empty\<close>, and for the empty URL \<open>DownloadToFile\<close> fails with
  \<open>download url is empty\<close>. Each of them leaves the world as it was: no request has
  been sent.
\<close>

theorem validation_fails_without_request:
  "(TrimSpace query = [] \<longrightarrow>
      SearchTracks lib c query limit offset w = (Inl ''query is empty'', w))
   \<and> (set rs \<subseteq> set spaceRunes \<longrightarrow> TrimSpace (concat rs) = [])
   \<and> GetTrack lib c [] w = (Inl ''track id is empty'', w)
   \<and> GetDownloadURL lib c [] w = (Inl ''track id is empty'', w)
   \<and> DownloadToFile lib c [] destPath w = (Some ''download url is empty'', w)"
  using SearchTracks_invalid[of query lib c limit offset w] TrimSpace_spaces[of rs]
  by (simp add: GetTrack_def GetDownloadURL_def DownloadToFile_def)

text \<open>The witness: a query of a space, a tab and a no-break space.\<close>

theorem validation_fails_without_request_witness:
  "SearchTracks (ex_stdlib (ex_dto ''a'' ''t'')) (ex_client (Inl ''unused''))
       [CHR '' '', CHR 0x09, CHR 0xC2, CHR 0xA0] 10 0 ex_world
     = (Inl ''query is empty'', ex_world)
   \<and> Sent (snd (SearchTracks (ex_stdlib (ex_dto ''a'' ''t'')) (ex_client (Inl ''unused''))
       [CHR '' '', CHR 0x09, CHR 0xC2, CHR 0xA0] 10 0 ex_world)) = []"
proof -
  let ?q = "[CHR '' '', CHR 0x09, CHR 0xC2, CHR 0xA0]"
  let ?rs = "[[CHR '' ''], [CHR 0x09], [CHR 0xC2, CHR 0xA0]]"
  have q: "?q = concat ?rs" by simp
  have "set ?rs \<subseteq> set spaceRunes" by (simp add: spaceRunes_def)
  with validation_fails_without_request[where rs = "?rs", THEN conjunct2, THEN conjunct1]
  have "TrimSpace (concat ?rs) = []"
    by blast
  then have "TrimSpace ?q = []" by simp
  with validation_fails_without_request[where query = "?q", THEN conjunct1]
  have "SearchTracks (ex_stdlib (ex_dto ''a'' ''t'')) (ex_client (Inl ''unused'')) ?q 10 0 ex_world
     = (Inl ''query is empty'', ex_world)"
    by blast
  then show ?thesis by (simp add: ex_world_def)
qed

subsection \<open>The ID of a Track\<close>

text \<open>
  Claim C7 says that the ID of a Track returned by \<open>GetTrack\<close> or \<open>SearchTracks\<close> is
  never empty. The code has no such check: when the entry of the payload has no \<open>id\<close>
  field, the decoder leaves the \<open>json.Number\<close> empty, and \<open>GetTrack\<close> returns the Track
  with the empty ID.
\<close>

theorem GetTrack_returns_empty_ID:
  "fst (GetTrack (ex_stdlib ((ex_dto ''Daft Punk'' ''One More Time'')\<lparr>ID_dto := []\<rparr>))
          (ex_client (Inl ''unused'')) ''42'' ex_world)
     = Inr \<lparr> ID = [], Title = ''One More Time'', Artists = [''Daft Punk''],
             DurationSeconds = 185,
             CoverURL = ''https://avatars.yandex.net/get-music-content/1/200x200'',
             AlbumTitle = ''Album'' \<rparr>"
  by (simp add: GetTrack_def NewRequest_def ex_stdlib_def ex_client_def ex_world_def
        Do_def attachHeaders_def apiBase_def ex_respond_def ex_dto_def mapTrack_def
        go_div_def Title_albums_def ReplaceAll.simps userAgent_def)

text \<open>
  Claim C7, amended. The ID of a mapped Track is the id of the decoded trackDTO, copied
  as it is: \<open>GetTrack\<close> returns the mapping of the first decoded entry and
  \<open>SearchTracks\<close> the mappings of the leading entries of the page, each with the id of
  its entry. The ID is therefore empty exactly when the decoded id is.
\<close>

theorem Track_ID_copies_decoded_id:
  "ID (mapTrack t) = ID_dto t
   \<and> (GetTrack lib c id' w = (Inr tr, w') \<longrightarrow>
        (\<exists>b result. json_trackResponse lib b = Inr result \<and> result \<noteq> []
            \<and> tr = mapTrack (result ! 0) \<and> ID tr = ID_dto (result ! 0)))
   \<and> (SearchTracks lib c query limit offset w = (Inr tracks, w'') \<longrightarrow>
        (\<exists>b results n. json_searchResponse lib b = Inr results
            \<and> tracks = map mapTrack (take n results)
            \<and> map ID tracks = map ID_dto (take n results)))"
proof -
  have g: "\<exists>b result. json_trackResponse lib b = Inr result \<and> result \<noteq> []
            \<and> tr = mapTrack (result ! 0) \<and> ID tr = ID_dto (result ! 0)"
    if "GetTrack lib c id' w = (Inr tr, w')"
  proof -
    from GetTrack_Inr[OF that] obtain b result where
      r: "json_trackResponse lib b = Inr result" "result \<noteq> []" "tr = mapTrack (result ! 0)"
      by blast
    from r(3) have "ID tr = ID_dto (result ! 0)" by (simp add: ID_mapTrack)
    with r show ?thesis by blast
  qed
  have s: "\<exists>b results n. json_searchResponse lib b = Inr results
            \<and> tracks = map mapTrack (take n results)
            \<and> map ID tracks = map ID_dto (take n results)"
    if "SearchTracks lib c query limit offset w = (Inr tracks, w'')"
  proof -
    from SearchTracks_Inr[OF that] obtain b results where
      r: "json_searchResponse lib b = Inr results"
         "tracks = map mapTrack (take (nat (if limit \<le> 0 then 10 else limit)) results)"
      by blast
    have "map ID tracks = map ID_dto (take (nat (if limit \<le> 0 then 10 else limit)) results)"
      unfolding r(2) by (simp add: ID_mapTrack)
    with r show ?thesis by blast
  qed
  from g s show ?thesis by (simp add: ID_mapTrack)
qed

text \<open>The witness: track 42 of the example catalog comes back with the ID 42, and the
  three results of a search with the IDs 42, 43 and 44.\<close>

theorem Track_ID_copies_decoded_id_witness:
  "ID (projr (fst (GetTrack (ex_stdlib (ex_dto ''Daft Punk'' ''One More Time''))
                     (ex_client (Inl ''unused'')) ''42'' ex_world))) = ''42''
   \<and> map ID (projr (fst (SearchTracks (ex_stdlib (ex_dto ''Daft Punk'' ''One More Time''))
                     (ex_client (Inl ''unused'')) ''daft punk'' 3 0 ex_world)))
       = [''42'', ''43'', ''44'']"
proof -
  let ?lib = "ex_stdlib (ex_dto ''Daft Punk'' ''One More Time'')"
  let ?c = "ex_client (Inl ''unused'')"
  let ?r = "GetTrack ?lib ?c ''42'' ex_world"
  have ok: "fst ?r = Inr (projr (fst ?r))"
    by (simp add: GetTrack_def NewRequest_def ex_stdlib_def ex_client_def ex_world_def
        Do_def attachHeaders_def apiBase_def ex_respond_def)
  then have run: "?r = (Inr (projr (fst ?r)), snd ?r)"
    by (metis prod.collapse)
  from Track_ID_copies_decoded_id
         [where lib = "?lib" and c = "?c" and id' = "''42''" and w = ex_world
            and tr = "projr (fst ?r)" and w' = "snd ?r", THEN conjunct2, THEN conjunct1] run
  obtain b result where
    d: "json_trackResponse ?lib b = Inr result" "result \<noteq> []"
       "ID (projr (fst ?r)) = ID_dto (result ! 0)"
    by blast
  from d(1) have "result = [ex_dto ''Daft Punk'' ''One More Time'']"
    by (simp add: ex_stdlib_def split: if_splits)
  with d(3) have g: "ID (projr (fst ?r)) = ''42''" by (simp add: ex_dto_def)
  let ?s = "SearchTracks ?lib ?c ''daft punk'' 3 0 ex_world"
  have sok: "fst ?s = Inr (projr (fst ?s))" "length (projr (fst ?s)) = 3"
    by (simp_all add: SearchTracks_def TrimSpace_daft_punk search_URL_text NewRequest_def
          ex_stdlib_def ex_client_def Do_def req_URL_attachHeaders apiBase_def ex_respond_def
          Let_def SearchTracks_loop_take)
  then have srun: "?s = (Inr (projr (fst ?s)), snd ?s)"
    by (metis prod.collapse)
  from Track_ID_copies_decoded_id
         [where lib = "?lib" and c = "?c" and query = "''daft punk''" and limit = 3 and offset = 0
            and w = ex_world and tracks = "projr (fst ?s)" and w'' = "snd ?s",
          THEN conjunct2, THEN conjunct2] srun
  obtain b' results n where
    e: "json_searchResponse ?lib b' = Inr results"
       "projr (fst ?s) = map mapTrack (take n results)"
       "map ID (projr (fst ?s)) = map ID_dto (take n results)"
    by blast
  from e(1) have rs: "results = [ex_dto ''Daft Punk'' ''One More Time'',
      (ex_dto ''Daft Punk'' ''One More Time'')\<lparr>ID_dto := ''43''\<rparr>,
      (ex_dto ''Daft Punk'' ''One More Time'')\<lparr>ID_dto := ''44''\<rparr>]"
    by (simp add: ex_stdlib_def split: if_splits)
  from e(2) sok(2) have "length (take n results) = 3" by simp
  with rs have "take n results = results" by simp
  with e(3) rs have "map ID (projr (fst ?s)) = [''42'', ''43'', ''44'']"
    by (simp add: ex_dto_def)
  with g show ?thesis by blast
qed

section \<open>Properties of the download service\<close>

subsection \<open>The requests of the client leave the file system alone\<close>

lemma resolveDownloadInfoURL_world:
  "\<exists>sent. snd (resolveDownloadInfoURL lib c infoURL trackID w) = w\<lparr>Sent := sent\<rparr>"
proof (cases "infoURL = [] \<or> (\<exists>e. NewRequest lib infoURL = Inl e)")
  case True
  then have "snd (resolveDownloadInfoURL lib c infoURL trackID w) = w"
    by (auto simp: resolveDownloadInfoURL_def)
  then show ?thesis by (intro exI[of _ "Sent w"]) simp
next
  case False
  then obtain req where req: "NewRequest lib infoURL = Inr req" "infoURL \<noteq> []"
    by (cases "NewRequest lib infoURL") auto
  have "snd (resolveDownloadInfoURL lib c infoURL trackID w)
          = w\<lparr>Sent := Sent w @ [attachHeaders c req]\<rparr>"
    using req
    by (simp add: resolveDownloadInfoURL_def Do_def Let_def split: sum.splits option.splits)
  then show ?thesis by blast
qed

lemma GetTrack_world: "\<exists>sent. snd (GetTrack lib c id' w) = w\<lparr>Sent := sent\<rparr>"
proof (cases "id' = [] \<or> (\<exists>e. NewRequest lib (apiBase @ ''/tracks/'' @ id') = Inl e)")
  case True
  then have "snd (GetTrack lib c id' w) = w"
    by (auto simp: GetTrack_def)
  then show ?thesis by (intro exI[of _ "Sent w"]) simp
next
  case False
  then obtain req where req: "NewRequest lib (apiBase @ ''/tracks/'' @ id') = Inr req" "id' \<noteq> []"
    by (cases "NewRequest lib (apiBase @ ''/tracks/'' @ id')") auto
  have "snd (GetTrack lib c id' w) = w\<lparr>Sent := Sent w @ [attachHeaders c req]\<rparr>"
    using req
    by (simp add: GetTrack_def Do_def Let_def split: sum.splits option.splits)
  then show ?thesis by blast
qed

lemma GetDownloadURL_world: "\<exists>sent. snd (GetDownloadURL lib c id' w) = w\<lparr>Sent := sent\<rparr>"
proof (cases "id' = [] \<or> (\<exists>e. NewRequest lib (apiBase @ ''/tracks/'' @ id' @ ''/download-info'') = Inl e)")
  case True
  then have "snd (GetDownloadURL lib c id' w) = w"
    by (auto simp: GetDownloadURL_def)
  then show ?thesis by (intro exI[of _ "Sent w"]) simp
next
  case False
  then obtain req where req:
    "NewRequest lib (apiBase @ ''/tracks/'' @ id' @ ''/download-info'') = Inr req" "id' \<noteq> []"
    by (cases "NewRequest lib (apiBase @ ''/tracks/'' @ id' @ ''/download-info'')") auto
  let ?w1 = "w\<lparr>Sent := Sent w @ [attachHeaders c req]\<rparr>"
  obtain sent where r: "\<And>u. \<exists>sent. snd (resolveDownloadInfoURL lib c u id' ?w1) = ?w1\<lparr>Sent := sent\<rparr>"
    using resolveDownloadInfoURL_world by blast
  have "snd (GetDownloadURL lib c id' w) = ?w1
        \<or> (\<exists>u. snd (GetDownloadURL lib c id' w) = snd (resolveDownloadInfoURL lib c u id' ?w1))"
    using req
    by (auto simp: GetDownloadURL_def Do_def Let_def split: sum.splits option.splits)
  then show ?thesis
  proof
    assume "snd (GetDownloadURL lib c id' w) = ?w1"
    then show ?thesis by blast
  next
    assume "\<exists>u. snd (GetDownloadURL lib c id' w) = snd (resolveDownloadInfoURL lib c u id' ?w1)"
    then obtain u where u: "snd (GetDownloadURL lib c id' w) = snd (resolveDownloadInfoURL lib c u id' ?w1)"
      by blast
    from r[of u] obtain sent' where "snd (resolveDownloadInfoURL lib c u id' ?w1) = ?w1\<lparr>Sent := sent'\<rparr>"
      by blast
    with u have "snd (GetDownloadURL lib c id' w) = w\<lparr>Sent := sent'\<rparr>" by simp
    then show ?thesis by blast
  qed
qed

subsection \<open>The temporary directory and the destination\<close>

lemma MkdirTemp_loop_Inr:
  "MkdirTemp_loop n w = (Inr d, w') \<Longrightarrow>
     Files w d = None \<and> d \<noteq> [] \<and> Files w' = (Files w)(d \<mapsto> Dir) \<and> Sent w' = Sent w"
proof (induction n w rule: MkdirTemp_loop.induct)
  case (1 n w)
  let ?name = "TempDir w @ [''ym-bot-'' @ uitoa (Random w (RandPos w))]"
  let ?w = "w\<lparr>RandPos := RandPos w + 1\<rparr>"
  show ?case
  proof (cases "os_Mkdir ?name (Files w)")
    case (Pair e fs)
    show ?thesis
    proof (cases e)
      case None
      with Pair have "Files w ?name = None" "fs = (Files w)(?name \<mapsto> Dir)"
        by (auto simp: os_Mkdir_def split: if_splits)
      moreover from None Pair "1.prems" have "d = ?name" "w' = ?w\<lparr>Files := fs\<rparr>"
        by (simp_all add: MkdirTemp_loop.simps[of n w] Let_def)
      ultimately show ?thesis by simp
    next
      case (Some err)
      with Pair "1.prems" have rec: "err = ''file exists''" "n + 1 < 10000"
        "MkdirTemp_loop (n + 1) ?w = (Inr d, w')"
        by (simp_all add: MkdirTemp_loop.simps[of n w] Let_def split: if_splits)
      from Pair Some have "fs = Files w" by (auto simp: os_Mkdir_def split: if_splits)
      from "1.IH"[OF refl refl _ _ rec(1) rec(2) rec(3)] Pair Some
      show ?thesis by simp
    qed
  qed
qed

lemma os_MkdirTemp_Inr:
  "os_MkdirTemp w = (Inr d, w') \<Longrightarrow>
     Files w d = None \<and> d \<noteq> [] \<and> Files w' = (Files w)(d \<mapsto> Dir) \<and> Sent w' = Sent w"
  unfolding os_MkdirTemp_def by (rule MkdirTemp_loop_Inr)

lemma splitSlash_acc_no_slash:
  "CHR ''/'' \<notin> set s \<Longrightarrow> splitSlash_acc cur s = [cur @ s]"
  by (induction s arbitrary: cur) auto

lemma filepath_Join_plain:
  assumes "CHR ''/'' \<notin> set name" "name \<noteq> []" "name \<noteq> ''.''" "name \<noteq> ''..''"
  shows "filepath_Join dir name = dir @ [name]"
  using assms
  by (simp add: filepath_Join_def splitSlash_def splitSlash_acc_no_slash Clean_step_def)

lemma mp3_name_plain:
  "a @ '' - '' @ t @ ''.mp3'' \<noteq> [] \<and> a @ '' - '' @ t @ ''.mp3'' \<noteq> ''.''
   \<and> a @ '' - '' @ t @ ''.mp3'' \<noteq> ''..''"
proof -
  have "length (a @ '' - '' @ t @ ''.mp3'') \<ge> 7" by simp
  then show ?thesis by auto
qed

lemma os_MkdirAll_existing: "fs p = Some Dir \<Longrightarrow> os_MkdirAll p fs = (None, fs)"
  by (simp add: os_MkdirAll.simps[of p fs])

lemma DownloadToFile_None:
  assumes "DownloadToFile lib c url dest w = (None, w')"
    and "Files w (filepath_Dir dest) = Some Dir"
  shows "\<exists>data. Files w' = (Files w)(dest \<mapsto> File data)"
proof -
  from assms(1) obtain req resp where
    r: "NewRequest lib url = Inr req" "httpClient c (Sent w) (attachHeaders c req) = Inr resp"
       "StatusCode resp = 200" "url \<noteq> []"
    by (auto simp: DownloadToFile_def Do_def split: if_splits sum.splits)
  let ?w1 = "w\<lparr>Sent := Sent w @ [attachHeaders c req]\<rparr>"
  have e: "ensureDir (filepath_Dir dest) (Files w) = (None, Files w)"
    using assms(2) by (simp add: ensureDir_def os_MkdirAll_existing)
  from assms(1) r e have
    "(case createFile dest (Files w) of
        (Some err, fs') \<Rightarrow> (Some err, ?w1\<lparr>Files := fs'\<rparr>)
      | (None, fs') \<Rightarrow> (ReadErr (Body resp),
                         ?w1\<lparr>Files := fs'(dest \<mapsto> File (Data (Body resp)))\<rparr>)) = (None, w')"
    by (simp add: DownloadToFile_def Do_def)
  then have c: "createFile dest (Files w) = (None, (Files w)(dest \<mapsto> File []))
              \<and> w' = ?w1\<lparr>Files := (Files w)(dest \<mapsto> File [], dest \<mapsto> File (Data (Body resp)))\<rparr>"
    using e
    by (auto simp: createFile_def os_Create_def split: prod.splits option.splits if_splits)
  then have "Files w' = (Files w)(dest \<mapsto> File (Data (Body resp)))" by simp
  then show ?thesis by blast
qed

subsection \<open>Running the example world\<close>

lemmas ex_defs =
  ex_stdlib_def ex_client_def ex_respond_def ex_dto_def ex_world_def ex_info_def
  NewRequest_def Do_def attachHeaders_def apiBase_def userAgent_def statusError_def
  ReadAll_Limit_def Header_Get_def

lemma ex_GetTrack:
  "fst (GetTrack (ex_stdlib dto) (ex_client a) ''42'' w) = Inr (mapTrack dto)"
  by (simp add: GetTrack_def ex_defs)

lemma ex_pick:
  "pickDownloadInfo
     [\<lparr> URL = ''https://storage/info-aac'', Codec = ''aac'', Bitrate = 192 \<rparr>,
      \<lparr> URL = ''https://storage/info-mp3'', Codec = ''mp3'', Bitrate = 320 \<rparr>]
   = \<lparr> URL = ''https://storage/info-mp3'', Codec = ''mp3'', Bitrate = 320 \<rparr>"
  by (simp add: pickDownloadInfo_def EqualFold_mp3)

lemma ex_GetDownloadURL:
  "fst (GetDownloadURL (ex_stdlib dto) (ex_client a) ''42'' w) = Inr ''https://cdn/audio.mp3''"
  by (simp add: GetDownloadURL_def resolveDownloadInfoURL_def ex_defs ex_pick Let_def)

lemma ex_MkdirTemp:
  "os_MkdirTemp (ex_world\<lparr>Sent := s\<rparr>) =
     (Inr [''tmp'', ''ym-bot-7''],
      ex_world\<lparr>Sent := s, RandPos := 1,
               Files := [[''tmp''] \<mapsto> Dir, [''tmp'', ''ym-bot-7''] \<mapsto> Dir]\<rparr>)"
  by (simp add: os_MkdirTemp_def MkdirTemp_loop.simps[of 0] os_Mkdir_def ex_world_def
        uitoa.simps digit_def is_dir_def Let_def)

lemma ex_steps:
  "\<exists>w1 w2 w3.
     GetTrack (ex_stdlib dto) (ex_client a) ''42'' ex_world = (Inr (mapTrack dto), w1)
     \<and> GetDownloadURL (ex_stdlib dto) (ex_client a) ''42'' w1 = (Inr ''https://cdn/audio.mp3'', w2)
     \<and> os_MkdirTemp w2 = (Inr [''tmp'', ''ym-bot-7''], w3)
     \<and> Files w3 = [[''tmp''] \<mapsto> Dir, [''tmp'', ''ym-bot-7''] \<mapsto> Dir]"
proof -
  let ?lib = "ex_stdlib dto" and ?c = "ex_client a"
  obtain s1 where s1: "snd (GetTrack ?lib ?c ''42'' ex_world) = ex_world\<lparr>Sent := s1\<rparr>"
    using GetTrack_world by blast
  obtain s2 where s2: "snd (GetDownloadURL ?lib ?c ''42'' (ex_world\<lparr>Sent := s1\<rparr>))
                         = ex_world\<lparr>Sent := s2\<rparr>"
    using GetDownloadURL_world[of ?lib ?c "''42''" "ex_world\<lparr>Sent := s1\<rparr>"] by auto
  have g: "GetTrack ?lib ?c ''42'' ex_world = (Inr (mapTrack dto), ex_world\<lparr>Sent := s1\<rparr>)"
    using ex_GetTrack[of dto a ex_world] s1 by (metis prod.collapse)
  have u: "GetDownloadURL ?lib ?c ''42'' (ex_world\<lparr>Sent := s1\<rparr>)
             = (Inr ''https://cdn/audio.mp3'', ex_world\<lparr>Sent := s2\<rparr>)"
    using ex_GetDownloadURL[of dto a "ex_world\<lparr>Sent := s1\<rparr>"] s2
    by (metis prod.collapse)
  let ?w3 = "ex_world\<lparr>Sent := s2, RandPos := 1,
               Files := [[''tmp''] \<mapsto> Dir, [''tmp'', ''ym-bot-7''] \<mapsto> Dir]\<rparr>"
  have f: "Files ?w3 = [[''tmp''] \<mapsto> Dir, [''tmp'', ''ym-bot-7''] \<mapsto> Dir]" by simp
  from g u ex_MkdirTemp[of s2] f show ?thesis by blast
qed

lemma ex_DownloadTrack:
  assumes "filepath_Join [''tmp'', ''ym-bot-7'']
             (ArtistsString (mapTrack dto) @ '' - '' @ Title (mapTrack dto) @ ''.mp3'') = dest"
  shows "\<exists>w3. Files w3 = [[''tmp''] \<mapsto> Dir, [''tmp'', ''ym-bot-7''] \<mapsto> Dir] \<and>
     DownloadTrack \<lparr> client = APIClient_Client (ex_stdlib dto) (ex_client a) \<rparr> ''42'' ex_world =
     (case DownloadToFile (ex_stdlib dto) (ex_client a) ''https://cdn/audio.mp3'' dest w3 of
           (Some err, w4) \<Rightarrow>
             (Inl (''download: '' @ err),
              w4\<lparr>Files := os_RemoveAll [''tmp'', ''ym-bot-7''] (Files w4)\<rparr>)
         | (None, w4) \<Rightarrow> (Inr (mapTrack dto, dest), w4))"
proof -
  from ex_steps[of dto a] obtain w1 w2 w3 where
    st: "GetTrack (ex_stdlib dto) (ex_client a) ''42'' ex_world = (Inr (mapTrack dto), w1)"
        "GetDownloadURL (ex_stdlib dto) (ex_client a) ''42'' w1 = (Inr ''https://cdn/audio.mp3'', w2)"
        "os_MkdirTemp w2 = (Inr [''tmp'', ''ym-bot-7''], w3)"
        "Files w3 = [[''tmp''] \<mapsto> Dir, [''tmp'', ''ym-bot-7''] \<mapsto> Dir]"
    by blast
  have "DownloadTrack \<lparr> client = APIClient_Client (ex_stdlib dto) (ex_client a) \<rparr> ''42'' ex_world =
     (case DownloadToFile (ex_stdlib dto) (ex_client a) ''https://cdn/audio.mp3'' dest w3 of
           (Some err, w4) \<Rightarrow>
             (Inl (''download: '' @ err),
              w4\<lparr>Files := os_RemoveAll [''tmp'', ''ym-bot-7''] (Files w4)\<rparr>)
         | (None, w4) \<Rightarrow> (Inr (mapTrack dto, dest), w4))"
    unfolding assms[symmetric]
    by (simp add: DownloadTrack_def APIClient_Client_def st(1-3) Let_def
          split: prod.splits option.splits)
  with st(4) show ?thesis by blast
qed

lemma ex_name_slash:
  "ArtistsString (mapTrack (ex_dto ''AC/DC'' ''T.N.T.'')) @ '' - ''
     @ Title (mapTrack (ex_dto ''AC/DC'' ''T.N.T.'')) @ ''.mp3'' = ''AC/DC - T.N.T..mp3''"
  by (simp add: ArtistsString_def mapTrack_def ex_dto_def)

lemma ex_Join_slash:
  "filepath_Join [''tmp'', ''ym-bot-7'']
     (ArtistsString (mapTrack (ex_dto ''AC/DC'' ''T.N.T.'')) @ '' - ''
        @ Title (mapTrack (ex_dto ''AC/DC'' ''T.N.T.'')) @ ''.mp3'')
     = [''tmp'', ''ym-bot-7'', ''AC'', ''DC - T.N.T..mp3'']"
  unfolding ex_name_slash
  by (simp add: filepath_Join_def splitSlash_def Clean_step_def)

lemma ex_DownloadToFile_slash:
  assumes "Files w = [[''tmp''] \<mapsto> Dir, [''tmp'', ''ym-bot-7''] \<mapsto> Dir]"
  shows "fst (DownloadToFile (ex_stdlib dto) (ex_client (Inr (ex_respond 200 ''audio'')))
      ''https://cdn/audio.mp3'' [''tmp'', ''ym-bot-7'', ''AC'', ''DC - T.N.T..mp3''] w) = None
   \<and> Files (snd (DownloadToFile (ex_stdlib dto) (ex_client (Inr (ex_respond 200 ''audio'')))
      ''https://cdn/audio.mp3'' [''tmp'', ''ym-bot-7'', ''AC'', ''DC - T.N.T..mp3''] w))
     = [[''tmp''] \<mapsto> Dir, [''tmp'', ''ym-bot-7''] \<mapsto> Dir,
        [''tmp'', ''ym-bot-7'', ''AC''] \<mapsto> Dir,
        [''tmp'', ''ym-bot-7'', ''AC'', ''DC - T.N.T..mp3''] \<mapsto> File ''audio'']"
  by (simp add: DownloadToFile_def ex_defs ensureDir_def createFile_def filepath_Dir_def
        os_MkdirAll.simps os_Create_def is_dir_def assms)

lemma ex_name_plain:
  "ArtistsString (mapTrack (ex_dto ''Daft Punk'' ''One More Time'')) @ '' - ''
     @ Title (mapTrack (ex_dto ''Daft Punk'' ''One More Time'')) @ ''.mp3''
   = ''Daft Punk - One More Time.mp3''"
  by (simp add: ArtistsString_def mapTrack_def ex_dto_def)

lemma ex_Join_plain:
  "filepath_Join [''tmp'', ''ym-bot-7'']
     (ArtistsString (mapTrack (ex_dto ''Daft Punk'' ''One More Time'')) @ '' - ''
        @ Title (mapTrack (ex_dto ''Daft Punk'' ''One More Time'')) @ ''.mp3'')
     = [''tmp'', ''ym-bot-7'', ''Daft Punk - One More Time.mp3'']"
  unfolding ex_name_plain
  by (simp add: filepath_Join_def splitSlash_def Clean_step_def)

lemma ex_DownloadToFile_timeout:
  "fst (DownloadToFile (ex_stdlib dto) (ex_client (Inl ''timeout''))
          ''https://cdn/audio.mp3'' dest w) = Some ''timeout''"
  by (simp add: DownloadToFile_def ex_defs)

lemma ex_DownloadToFile_plain:
  assumes "Files w = [[''tmp''] \<mapsto> Dir, [''tmp'', ''ym-bot-7''] \<mapsto> Dir]"
  shows "fst (DownloadToFile (ex_stdlib dto) (ex_client (Inr (ex_respond 200 ''audio'')))
      ''https://cdn/audio.mp3'' [''tmp'', ''ym-bot-7'', ''Daft Punk - One More Time.mp3''] w) = None"
  by (simp add: DownloadToFile_def ex_defs ensureDir_def createFile_def filepath_Dir_def
        os_MkdirAll.simps os_Create_def is_dir_def assms)

lemma wf_files_ex_world: "wf_files (Files ex_world)"
  by (auto simp: wf_files_def ex_world_def is_dir_def split: if_splits)

subsection \<open>The life of the temporary directory\<close>

text \<open>
  What \<open>DownloadTrack\<close> does with the temporary directory. When the retrieval fails
  after the directory was created, whatever the client, the error is returned and
  nothing is left at or below the directory. When the service of an \<open>APIClient\<close>
  succeeds from a well-formed file system and the file name
  \<open>{artists} - {title}.mp3\<close> has no slash, the parent of the returned path did not
  exist before, is a directory now, and holds the file of that name and nothing else.
\<close>

theorem DownloadTrack_temp_dir_lifecycle:
  "(Client_GetTrack (client s) id' w = (Inr meta, w1)
      \<and> Client_GetDownloadURL (client s) id' w1 = (Inr url, w2)
      \<and> os_MkdirTemp w2 = (Inr tmpDir, w3)
      \<and> Client_DownloadToFile (client s) url
           (filepath_Join tmpDir (ArtistsString meta @ '' - '' @ Title meta @ ''.mp3'')) w3
         = (Some err, w4) \<longrightarrow>
      fst (DownloadTrack s id' w) = Inl (''download: '' @ err)
      \<and> (\<forall>q. prefix tmpDir q \<longrightarrow> Files (snd (DownloadTrack s id' w)) q = None))
   \<and> (DownloadTrack \<lparr> client = APIClient_Client lib c \<rparr> id' w = (Inr (meta', dest), w')
       \<and> wf_files (Files w)
       \<and> CHR ''/'' \<notin> set (ArtistsString meta' @ '' - '' @ Title meta' @ ''.mp3'') \<longrightarrow>
      Files w (filepath_Dir dest) = None
      \<and> Files w' (filepath_Dir dest) = Some Dir
      \<and> dest = filepath_Dir dest @ [ArtistsString meta' @ '' - '' @ Title meta' @ ''.mp3'']
      \<and> {q. q \<noteq> [] \<and> butlast q = filepath_Dir dest \<and> Files w' q \<noteq> None} = {dest}
      \<and> (\<exists>data. Files w' dest = Some (File data)))"
proof -
  have fail: "fst (DownloadTrack s id' w) = Inl (''download: '' @ err)
      \<and> (\<forall>q. prefix tmpDir q \<longrightarrow> Files (snd (DownloadTrack s id' w)) q = None)"
    if "Client_GetTrack (client s) id' w = (Inr meta, w1)"
       "Client_GetDownloadURL (client s) id' w1 = (Inr url, w2)"
       "os_MkdirTemp w2 = (Inr tmpDir, w3)"
       "Client_DownloadToFile (client s) url
           (filepath_Join tmpDir (ArtistsString meta @ '' - '' @ Title meta @ ''.mp3'')) w3
         = (Some err, w4)"
    using that by (simp add: DownloadTrack_def Let_def os_RemoveAll_def)
  have ok: "Files w (filepath_Dir dest) = None
      \<and> Files w' (filepath_Dir dest) = Some Dir
      \<and> dest = filepath_Dir dest @ [ArtistsString meta' @ '' - '' @ Title meta' @ ''.mp3'']
      \<and> {q. q \<noteq> [] \<and> butlast q = filepath_Dir dest \<and> Files w' q \<noteq> None} = {dest}
      \<and> (\<exists>data. Files w' dest = Some (File data))"
    if run: "DownloadTrack \<lparr> client = APIClient_Client lib c \<rparr> id' w = (Inr (meta', dest), w')"
      and wf: "wf_files (Files w)"
      and plain: "CHR ''/'' \<notin> set (ArtistsString meta' @ '' - '' @ Title meta' @ ''.mp3'')"
  proof -
    let ?name = "ArtistsString meta' @ '' - '' @ Title meta' @ ''.mp3''"
    obtain w1 where g: "GetTrack lib c id' w = (Inr meta', w1)"
      using run
      by (cases "GetTrack lib c id' w")
         (auto simp: DownloadTrack_def APIClient_Client_def Let_def
               split: sum.splits prod.splits option.splits)
    obtain url w2 where u: "GetDownloadURL lib c id' w1 = (Inr url, w2)"
      using run g
      by (cases "GetDownloadURL lib c id' w1")
         (auto simp: DownloadTrack_def APIClient_Client_def Let_def
               split: sum.splits prod.splits option.splits)
    obtain tmpDir w3 where t: "os_MkdirTemp w2 = (Inr tmpDir, w3)"
      using run g u
      by (cases "os_MkdirTemp w2")
         (auto simp: DownloadTrack_def APIClient_Client_def Let_def
               split: sum.splits prod.splits option.splits)
    have d: "dest = filepath_Join tmpDir ?name"
      and f: "DownloadToFile lib c url dest w3 = (None, w')"
      using run g u t
      by (auto simp: DownloadTrack_def APIClient_Client_def Let_def
               split: sum.splits prod.splits option.splits)
    have dest: "dest = tmpDir @ [?name]"
      unfolding d using plain mp3_name_plain[of "ArtistsString meta'" "Title meta'"]
      by (intro filepath_Join_plain) simp_all
    then have dir: "filepath_Dir dest = tmpDir" by (simp add: filepath_Dir_def)
    from GetTrack_world[of lib c id' w] g have f1: "Files w1 = Files w"
      by (metis snd_conv world.select_convs(2) world.surjective world.update_convs(1))
    from GetDownloadURL_world[of lib c id' w1] u have f2: "Files w2 = Files w1"
      by (metis snd_conv world.select_convs(2) world.surjective world.update_convs(1))
    from os_MkdirTemp_Inr[OF t] have m: "Files w2 tmpDir = None" "tmpDir \<noteq> []"
      "Files w3 = (Files w2)(tmpDir \<mapsto> Dir)" by simp_all
    have fresh: "Files w tmpDir = None" using m(1) f1 f2 by simp
    have nochild: "Files w q = None" if "q \<noteq> []" "butlast q = tmpDir" for q
    proof (rule ccontr)
      assume "Files w q \<noteq> None"
      with wf have "is_dir (Files w) (butlast q)" by (simp add: wf_files_def)
      with that fresh m(2) show False by (simp add: is_dir_def)
    qed
    from DownloadToFile_None[OF f] m(3) dir obtain data where
      w': "Files w' = (Files w3)(dest \<mapsto> File data)" by auto
    have fs': "Files w' = (Files w)(tmpDir \<mapsto> Dir, dest \<mapsto> File data)"
      using w' m(3) f1 f2 by simp
    have ne: "dest \<noteq> tmpDir" using dest by simp
    have 1: "Files w (filepath_Dir dest) = None" using fresh dir by simp
    have 2: "Files w' (filepath_Dir dest) = Some Dir" using fs' dir ne by simp
    have 3: "dest = filepath_Dir dest @ [?name]" using dest dir by simp
    have 4: "{q. q \<noteq> [] \<and> butlast q = filepath_Dir dest \<and> Files w' q \<noteq> None} = {dest}"
    proof (intro set_eqI iffI)
      fix q assume "q \<in> {q. q \<noteq> [] \<and> butlast q = filepath_Dir dest \<and> Files w' q \<noteq> None}"
      then have q: "q \<noteq> []" "butlast q = tmpDir" "Files w' q \<noteq> None" using dir by simp_all
      have "q \<noteq> tmpDir" using q(1,2) by (metis append_butlast_last_id append_self_conv list.distinct(1))
      with q(3) fs' nochild[OF q(1,2)] have "q = dest" by (auto split: if_splits)
      then show "q \<in> {dest}" by simp
    next
      fix q assume "q \<in> {dest}"
      then have "q = dest" by simp
      with dest dir fs' show "q \<in> {q. q \<noteq> [] \<and> butlast q = filepath_Dir dest \<and> Files w' q \<noteq> None}"
        by simp
    qed
    have 5: "\<exists>data. Files w' dest = Some (File data)" using fs' by simp
    from 1 2 3 4 5 show ?thesis by blast
  qed
  from fail ok show ?thesis by blast
qed

text \<open>Both runs in the example world: the audio host times out, and it answers.\<close>

theorem DownloadTrack_temp_dir_lifecycle_witness:
  "fst (DownloadTrack
          \<lparr> client = APIClient_Client (ex_stdlib (ex_dto ''Daft Punk'' ''One More Time''))
                       (ex_client (Inl ''timeout'')) \<rparr> ''42'' ex_world)
     = Inl ''download: timeout''
   \<and> Files (snd (DownloadTrack
          \<lparr> client = APIClient_Client (ex_stdlib (ex_dto ''Daft Punk'' ''One More Time''))
                       (ex_client (Inl ''timeout'')) \<rparr> ''42'' ex_world))
        [''tmp'', ''ym-bot-7''] = None
   \<and> fst (DownloadTrack
          \<lparr> client = APIClient_Client (ex_stdlib (ex_dto ''Daft Punk'' ''One More Time''))
                       (ex_client (Inr (ex_respond 200 ''audio''))) \<rparr> ''42'' ex_world)
     = Inr (mapTrack (ex_dto ''Daft Punk'' ''One More Time''),
            [''tmp'', ''ym-bot-7'', ''Daft Punk - One More Time.mp3''])
   \<and> {q. q \<noteq> [] \<and> butlast q = [''tmp'', ''ym-bot-7'']
          \<and> Files (snd (DownloadTrack
               \<lparr> client = APIClient_Client (ex_stdlib (ex_dto ''Daft Punk'' ''One More Time''))
                       (ex_client (Inr (ex_respond 200 ''audio''))) \<rparr> ''42'' ex_world)) q \<noteq> None}
     = {[''tmp'', ''ym-bot-7'', ''Daft Punk - One More Time.mp3'']}"
proof -
  let ?dto = "ex_dto ''Daft Punk'' ''One More Time''"
  let ?lib = "ex_stdlib ?dto"
  let ?bad = "ex_client (Inl ''timeout'')"
  let ?good = "ex_client (Inr (ex_respond 200 ''audio''))"
  let ?T = "[''tmp'', ''ym-bot-7'']"
  let ?D = "[''tmp'', ''ym-bot-7'', ''Daft Punk - One More Time.mp3'']"
  let ?name = "ArtistsString (mapTrack ?dto) @ '' - '' @ Title (mapTrack ?dto) @ ''.mp3''"
  \<comment> \<open>the failing run\<close>
  from ex_steps[of ?dto "Inl ''timeout''"] obtain w1 w2 w3 where
    b: "GetTrack ?lib ?bad ''42'' ex_world = (Inr (mapTrack ?dto), w1)"
       "GetDownloadURL ?lib ?bad ''42'' w1 = (Inr ''https://cdn/audio.mp3'', w2)"
       "os_MkdirTemp w2 = (Inr ?T, w3)"
    by blast
  obtain w4 where
    b4: "DownloadToFile ?lib ?bad ''https://cdn/audio.mp3'' (filepath_Join ?T ?name) w3
           = (Some ''timeout'', w4)"
    using ex_DownloadToFile_timeout[of ?dto "filepath_Join ?T ?name" w3] by (metis prod.collapse)
  have hyp_a: "Client_GetTrack (client \<lparr> client = APIClient_Client ?lib ?bad \<rparr>) ''42'' ex_world
                 = (Inr (mapTrack ?dto), w1)
      \<and> Client_GetDownloadURL (client \<lparr> client = APIClient_Client ?lib ?bad \<rparr>) ''42'' w1
                 = (Inr ''https://cdn/audio.mp3'', w2)
      \<and> os_MkdirTemp w2 = (Inr ?T, w3)
      \<and> Client_DownloadToFile (client \<lparr> client = APIClient_Client ?lib ?bad \<rparr>)
           ''https://cdn/audio.mp3'' (filepath_Join ?T ?name) w3 = (Some ''timeout'', w4)"
    using b b4 by (simp add: APIClient_Client_def)
  from DownloadTrack_temp_dir_lifecycle[where s = "\<lparr> client = APIClient_Client ?lib ?bad \<rparr>" and id' = "''42''"
            and w = ex_world and meta = "mapTrack ?dto" and ?w1.0 = w1 and ?w2.0 = w2
            and url = "''https://cdn/audio.mp3''" and tmpDir = "?T" and ?w3.0 = w3
            and err = "''timeout''" and ?w4.0 = w4, THEN conjunct1] hyp_a
  have a: "fst (DownloadTrack \<lparr> client = APIClient_Client ?lib ?bad \<rparr> ''42'' ex_world)
             = Inl (''download: '' @ ''timeout'')
      \<and> (\<forall>q. prefix ?T q \<longrightarrow>
            Files (snd (DownloadTrack \<lparr> client = APIClient_Client ?lib ?bad \<rparr> ''42'' ex_world)) q
              = None)"
    by blast
  then have a1: "fst (DownloadTrack \<lparr> client = APIClient_Client ?lib ?bad \<rparr> ''42'' ex_world)
             = Inl ''download: timeout''" by simp
  from a have a2: "Files (snd (DownloadTrack \<lparr> client = APIClient_Client ?lib ?bad \<rparr> ''42'' ex_world))
             ?T = None" by blast
  \<comment> \<open>the successful run\<close>
  from ex_DownloadTrack[OF ex_Join_plain, of "Inr (ex_respond 200 ''audio'')"]
  obtain v3 where v3: "Files v3 = [[''tmp''] \<mapsto> Dir, [''tmp'', ''ym-bot-7''] \<mapsto> Dir]"
    and run: "DownloadTrack \<lparr> client = APIClient_Client ?lib ?good \<rparr> ''42'' ex_world =
      (case DownloadToFile ?lib ?good ''https://cdn/audio.mp3'' ?D v3 of
           (Some err, w4) \<Rightarrow>
             (Inl (''download: '' @ err),
              w4\<lparr>Files := os_RemoveAll [''tmp'', ''ym-bot-7''] (Files w4)\<rparr>)
         | (None, w4) \<Rightarrow> (Inr (mapTrack ?dto, ?D), w4))"
    by blast
  obtain v4 where v4: "DownloadToFile ?lib ?good ''https://cdn/audio.mp3'' ?D v3 = (None, v4)"
    using ex_DownloadToFile_plain[OF v3, of ?dto] by (metis prod.collapse)
  from run v4 have r: "DownloadTrack \<lparr> client = APIClient_Client ?lib ?good \<rparr> ''42'' ex_world
      = (Inr (mapTrack ?dto, ?D), v4)" by simp
  have plain: "CHR ''/'' \<notin> set ?name" unfolding ex_name_plain by simp
  from DownloadTrack_temp_dir_lifecycle[where lib = "?lib" and c = "?good" and id' = "''42''" and w = ex_world
            and meta' = "mapTrack ?dto" and dest = "?D" and w' = v4, THEN conjunct2]
       r wf_files_ex_world plain
  have ok: "{q. q \<noteq> [] \<and> butlast q = filepath_Dir ?D \<and> Files v4 q \<noteq> None} = {?D}"
    by blast
  have b1: "fst (DownloadTrack \<lparr> client = APIClient_Client ?lib ?good \<rparr> ''42'' ex_world)
      = Inr (mapTrack ?dto, ?D)" by (simp add: r)
  have b2: "{q. q \<noteq> [] \<and> butlast q = ?T
          \<and> Files (snd (DownloadTrack \<lparr> client = APIClient_Client ?lib ?good \<rparr> ''42'' ex_world)) q
               \<noteq> None} = {?D}"
    using ok by (simp add: r filepath_Dir_def)
  from a1 a2 b1 b2 show ?thesis by blast
qed

text \<open>
  Claim C6. On a failed retrieval the temporary directory is removed, and on success the
  parent of the returned path is a fresh directory with exactly one file, named
  \<open>{artists} - {title}.mp3\<close>. The second half fails for a name with a slash, which
  \<open>filepath.Join\<close> takes for a path: for the artist AC/DC and the title T.N.T. the
  run succeeds, the file name would be \<open>AC/DC - T.N.T..mp3\<close>, and the returned path is
  \<open>/tmp/ym-bot-7/AC/DC - T.N.T..mp3\<close>. The new temporary directory \<open>/tmp/ym-bot-7\<close>
  holds the directory \<open>AC\<close>, not the file, and the file is named \<open>DC - T.N.T..mp3\<close>.
\<close>

theorem DownloadTrack_slash_in_artist:
  "fst (DownloadTrack
          \<lparr> client = APIClient_Client (ex_stdlib (ex_dto ''AC/DC'' ''T.N.T.''))
                       (ex_client (Inr (ex_respond 200 ''audio''))) \<rparr> ''42'' ex_world)
     = Inr (mapTrack (ex_dto ''AC/DC'' ''T.N.T.''),
            [''tmp'', ''ym-bot-7'', ''AC'', ''DC - T.N.T..mp3''])
   \<and> ArtistsString (mapTrack (ex_dto ''AC/DC'' ''T.N.T.'')) @ '' - ''
       @ Title (mapTrack (ex_dto ''AC/DC'' ''T.N.T.'')) @ ''.mp3'' = ''AC/DC - T.N.T..mp3''
   \<and> Files (snd (DownloadTrack
          \<lparr> client = APIClient_Client (ex_stdlib (ex_dto ''AC/DC'' ''T.N.T.''))
                       (ex_client (Inr (ex_respond 200 ''audio''))) \<rparr> ''42'' ex_world))
        [''tmp'', ''ym-bot-7'', ''AC''] = Some Dir
   \<and> Files ex_world [''tmp'', ''ym-bot-7''] = None
   \<and> Files (snd (DownloadTrack
          \<lparr> client = APIClient_Client (ex_stdlib (ex_dto ''AC/DC'' ''T.N.T.''))
                       (ex_client (Inr (ex_respond 200 ''audio''))) \<rparr> ''42'' ex_world))
        [''tmp'', ''ym-bot-7''] = Some Dir
   \<and> Files (snd (DownloadTrack
          \<lparr> client = APIClient_Client (ex_stdlib (ex_dto ''AC/DC'' ''T.N.T.''))
                       (ex_client (Inr (ex_respond 200 ''audio''))) \<rparr> ''42'' ex_world))
        [''tmp'', ''ym-bot-7'', ''AC/DC - T.N.T..mp3''] = None"
proof -
  let ?lib = "ex_stdlib (ex_dto ''AC/DC'' ''T.N.T.'')"
  let ?c = "ex_client (Inr (ex_respond 200 ''audio''))"
  let ?D = "[''tmp'', ''ym-bot-7'', ''AC'', ''DC - T.N.T..mp3'']"
  from ex_DownloadTrack[OF ex_Join_slash, of "Inr (ex_respond 200 ''audio'')"]
  obtain w3 where w3: "Files w3 = [[''tmp''] \<mapsto> Dir, [''tmp'', ''ym-bot-7''] \<mapsto> Dir]"
    and run: "DownloadTrack \<lparr> client = APIClient_Client ?lib ?c \<rparr> ''42'' ex_world =
      (case DownloadToFile ?lib ?c ''https://cdn/audio.mp3'' ?D w3 of
           (Some err, w4) \<Rightarrow>
             (Inl (''download: '' @ err),
              w4\<lparr>Files := os_RemoveAll [''tmp'', ''ym-bot-7''] (Files w4)\<rparr>)
         | (None, w4) \<Rightarrow> (Inr (mapTrack (ex_dto ''AC/DC'' ''T.N.T.''), ?D), w4))"
    by blast
  note d = ex_DownloadToFile_slash[OF w3, of "ex_dto ''AC/DC'' ''T.N.T.''"]
  obtain w4 where w4: "DownloadToFile ?lib ?c ''https://cdn/audio.mp3'' ?D w3 = (None, w4)"
    using d by (metis prod.collapse)
  with d have f4: "Files w4 = [[''tmp''] \<mapsto> Dir, [''tmp'', ''ym-bot-7''] \<mapsto> Dir,
        [''tmp'', ''ym-bot-7'', ''AC''] \<mapsto> Dir, ?D \<mapsto> File ''audio'']"
    by simp
  from run w4 have r: "DownloadTrack \<lparr> client = APIClient_Client ?lib ?c \<rparr> ''42'' ex_world
      = (Inr (mapTrack (ex_dto ''AC/DC'' ''T.N.T.''), ?D), w4)" by simp
  have 1: "fst (DownloadTrack \<lparr> client = APIClient_Client ?lib ?c \<rparr> ''42'' ex_world)
      = Inr (mapTrack (ex_dto ''AC/DC'' ''T.N.T.''), ?D)" by (simp add: r)
  have 3: "Files (snd (DownloadTrack \<lparr> client = APIClient_Client ?lib ?c \<rparr> ''42'' ex_world))
      [''tmp'', ''ym-bot-7'', ''AC''] = Some Dir" by (simp add: r f4)
  have 4: "Files ex_world [''tmp'', ''ym-bot-7''] = None" by (simp add: ex_world_def)
  have 5: "Files (snd (DownloadTrack \<lparr> client = APIClient_Client ?lib ?c \<rparr> ''42'' ex_world))
      [''tmp'', ''ym-bot-7''] = Some Dir" by (simp add: r f4)
  have 6: "Files (snd (DownloadTrack \<lparr> client = APIClient_Client ?lib ?c \<rparr> ''42'' ex_world))
      [''tmp'', ''ym-bot-7'', ''AC/DC - T.N.T..mp3''] = None" by (simp add: r f4)
  from 1 ex_name_slash 3 4 5 6 show ?thesis by blast
qed

end
